theory Spec2Isabelle
  imports Complex_Main "HOL-Library.Char_ord" "HOL-Library.List_Lexorder"
begin

section \<open>Python values, exceptions and dictionaries\<close>

text \<open>
  The batch submitter of \<^verbatim>\<open>src/apex_submitter_v2.py\<close> works on dynamically typed
  dictionaries. A Python \<^verbatim>\<open>str\<close> is a list of characters (code points below 256),
  a \<^verbatim>\<open>bytes\<close> object a list of 8-bit characters, a \<^verbatim>\<open>float\<close> a real number
  (the rounding of IEEE arithmetic is not modelled), an \<^verbatim>\<open>int\<close> an unbounded integer.
\<close>

type_synonym bytes = string

datatype pyval =
    PNone
  | PBool bool
  | PInt int
  | PFloat real
  | PStr string
  | PList "pyval list"
  | PDict "(string \<times> pyval) list"

text \<open>
  The exceptions of class \<^verbatim>\<open>Exception\<close> that the code can meet. \<open>Error\<close> stands for
  every other exception class (a transport timeout, a file that cannot be read, a signing
  failure), carrying its message.
\<close>

datatype py_exception =
    KeyError string
  | TypeError string
  | ValueError string
  | ZeroDivisionError
  | Error string

text \<open>\<^verbatim>\<open>str(e)\<close>: a \<^verbatim>\<open>KeyError\<close> prints the repr of its key, the others their message.\<close>

fun str_exc :: "py_exception \<Rightarrow> string" where
  "str_exc (KeyError k) = [CHR 0x27] @ k @ [CHR 0x27]"
| "str_exc (TypeError m) = m"
| "str_exc (ValueError m) = m"
| "str_exc ZeroDivisionError = ''division by zero''"
| "str_exc (Error m) = m"

text \<open>A dictionary with string keys, in insertion order; \<^verbatim>\<open>d[k]\<close> raises on a missing key.\<close>

type_synonym pydict = "(string \<times> pyval) list"

definition getitem :: "pydict \<Rightarrow> string \<Rightarrow> py_exception + pyval" where
  "getitem d k = (case map_of d k of None \<Rightarrow> Inl (KeyError k) | Some v \<Rightarrow> Inr v)"

text \<open>The slice \<^verbatim>\<open>v[:8]\<close>: strings and lists have one, every other value raises.\<close>

definition apostrophes :: "string \<Rightarrow> string" where
  "apostrophes s = [CHR 0x27] @ s @ [CHR 0x27]"

definition not_subscriptable :: "string \<Rightarrow> py_exception" where
  "not_subscriptable cls = TypeError (apostrophes cls @ '' object is not subscriptable'')"

fun slice8 :: "pyval \<Rightarrow> py_exception + pyval" where
  "slice8 (PStr s) = Inr (PStr (take 8 s))"
| "slice8 (PList vs) = Inr (PList (take 8 vs))"
| "slice8 PNone = Inl (not_subscriptable ''NoneType'')"
| "slice8 (PBool b) = Inl (not_subscriptable ''bool'')"
| "slice8 (PInt i) = Inl (not_subscriptable ''int'')"
| "slice8 (PFloat x) = Inl (not_subscriptable ''float'')"
| "slice8 (PDict d) = Inl (TypeError (''unhashable type: '' @ apostrophes ''slice''))"

subsection \<open>Decimal and hexadecimal rendering\<close>

text \<open>\<^verbatim>\<open>str(n)\<close> for an integer: decimal digits, a minus sign for a negative number.\<close>

definition digit_char :: "nat \<Rightarrow> char" where
  "digit_char d = ''0123456789abcdef'' ! d"

fun str_nat :: "nat \<Rightarrow> string" where
  "str_nat n = (if n < 10 then [digit_char n] else str_nat (n div 10) @ [digit_char (n mod 10)])"

declare str_nat.simps [simp del]

definition str_int :: "int \<Rightarrow> string" where
  "str_int i = (if i < 0 then CHR ''-'' # str_nat (nat (- i)) else str_nat (nat i))"

text \<open>\<^verbatim>\<open>bytes.hex()\<close> and \<^verbatim>\<open>hexdigest()\<close>: two lowercase hexadecimal digits per byte.\<close>

definition hex_byte :: "char \<Rightarrow> string" where
  "hex_byte c = [digit_char (of_char c div 16), digit_char (of_char c mod 16)]"

definition hex :: "bytes \<Rightarrow> string" where
  "hex bs = concat (map hex_byte bs)"

text \<open>\<^verbatim>\<open>round(x)\<close> on a float: to the nearest integer, a tie to the even one.\<close>

definition py_round :: "real \<Rightarrow> int" where
  "py_round x =
     (let f = \<lfloor>x\<rfloor>; d = x - of_int f
      in if d < 1 / 2 then f else if 1 / 2 < d then f + 1 else if even f then f else f + 1)"

text \<open>\<^verbatim>\<open>sep.join(parts)\<close>.\<close>

fun join :: "string \<Rightarrow> string list \<Rightarrow> string" where
  "join sep [] = []"
| "join sep [x] = x"
| "join sep (x # y # ys) = x @ sep @ join sep (y # ys)"

text \<open>
  \<^verbatim>\<open>str.strip()\<close>: the whitespace characters of Python below code point 256 are
  taken off both ends.
\<close>

definition isspace :: "char \<Rightarrow> bool" where
  "isspace c = ((of_char c :: nat) \<in> {9, 10, 11, 12, 13, 28, 29, 30, 31, 32, 133, 160})"

definition strip :: "string \<Rightarrow> string" where
  "strip s = rev (dropWhile isspace (rev (dropWhile isspace s)))"

section \<open>The request signer\<close>

subsection \<open>The canonical body: \<^verbatim>\<open>create_message_body\<close>\<close>

text \<open>
  The only dictionary that is serialised is the submission request of
  \<^verbatim>\<open>submit_single\<close>, whose values are two integers and a string (the type
  annotations of \<^verbatim>\<open>competition_id\<close>, \<^verbatim>\<open>round_number\<close> and \<^verbatim>\<open>code\<close>).
  \<^verbatim>\<open>json.dumps\<close> renders both kinds natively, so its \<^verbatim>\<open>default=str\<close>
  hook, which is called only for a value that JSON cannot render, is never reached.
\<close>

datatype json_value = JInt int | JStr string

type_synonym request = "(string \<times> json_value) list"

text \<open>
  A string in the output of \<^verbatim>\<open>json.dumps\<close> (\<^verbatim>\<open>ensure_ascii\<close> is on): the
  quotation mark, the backslash and every character outside the printable ASCII range
  are escaped.
\<close>

definition escape_char :: "char \<Rightarrow> string" where
  "escape_char c =
     (if c = CHR 0x22 then [CHR 0x5C, CHR 0x22]
      else if c = CHR 0x5C then [CHR 0x5C, CHR 0x5C]
      else if c = CHR 0x0A then [CHR 0x5C, CHR ''n'']
      else if c = CHR 0x0D then [CHR 0x5C, CHR ''r'']
      else if c = CHR 0x09 then [CHR 0x5C, CHR ''t'']
      else if c = CHR 0x08 then [CHR 0x5C, CHR ''b'']
      else if c = CHR 0x0C then [CHR 0x5C, CHR ''f'']
      else if 32 \<le> (of_char c :: nat) \<and> (of_char c :: nat) \<le> 126 then [c]
      else [CHR 0x5C, CHR ''u'', CHR ''0'', CHR ''0''] @ hex_byte c)"

definition json_string :: "string \<Rightarrow> string" where
  "json_string s = [CHR 0x22] @ concat (map escape_char s) @ [CHR 0x22]"

fun json_scalar :: "json_value \<Rightarrow> string" where
  "json_scalar (JInt i) = str_int i"
| "json_scalar (JStr s) = json_string s"

definition json_item :: "string \<times> json_value \<Rightarrow> string" where
  "json_item kv = json_string (fst kv) @ '': '' @ json_scalar (snd kv)"

text \<open>\<^verbatim>\<open>json.dumps(data, default=str, sort_keys=True)\<close> on such a dictionary.\<close>

definition json_dumps :: "request \<Rightarrow> string" where
  "json_dumps data = ''{'' @ join '', '' (map json_item (sort_key fst data)) @ ''}''"

text \<open>Lines 144-146. The output is ASCII, so its UTF-8 encoding has the same characters.\<close>

definition create_message_body :: "request \<Rightarrow> bytes" where
  "create_message_body data = json_dumps data"

text \<open>Lines 200-204: the request dictionary, in the order the source writes its keys.\<close>

definition submit_request :: "int \<Rightarrow> int \<Rightarrow> string \<Rightarrow> request" where
  "submit_request competition_id round_number code =
     [(''competition_id'', JInt competition_id),
      (''round_number'', JInt round_number),
      (''raw_code'', JStr code)]"

text \<open>
  The canonical form in the words of the specification, for comparison: every value that
  is not a string is rendered as a string.
\<close>

fun rendered_as_string :: "json_value \<Rightarrow> json_value" where
  "rendered_as_string (JInt i) = JStr (str_int i)"
| "rendered_as_string (JStr s) = JStr s"

definition spec_canonical_body :: "request \<Rightarrow> bytes" where
  "spec_canonical_body data = json_dumps (map (\<lambda>kv. (fst kv, rendered_as_string (snd kv))) data)"

subsection \<open>The environment of one submission\<close>

text \<open>
  A keypair of the wallet library: its public address and its secret.
\<close>

record keypair =
  ss58_address :: string
  private_key :: string

record http_response =
  status_code :: int
  resp_text :: string
  resp_json :: "py_exception + pyval"

text \<open>
  Everything one call of \<^verbatim>\<open>submit_single\<close> takes from outside the program: the
  readings of \<^verbatim>\<open>time.time()\<close> at lines 193, 150, 218 and 227, the result of
  \<^verbatim>\<open>load_keypair\<close> (lines 126-142 read the key file and build the keypair with the
  wallet library), the signature of the library for a message (or the exception it
  raises), the identifier drawn by \<^verbatim>\<open>uuid.uuid4()\<close>, what the remote service answers
  to the POST (or the transport exception), and the instant at which the task finishes,
  which orders the completions of concurrent tasks.
\<close>

record task_env =
  t_start :: real
  load_keypair :: "pyval \<Rightarrow> py_exception + keypair"
  t_sign :: real
  sign :: "keypair \<Rightarrow> string \<Rightarrow> py_exception + bytes"
  uuid4 :: string
  post :: "string \<Rightarrow> request \<Rightarrow> (string \<times> string) list \<Rightarrow> py_exception + http_response"
  t_response :: real
  t_except :: real
  finished_at :: nat

text \<open>The fields of \<^verbatim>\<open>BatchSubmitter\<close> that reach a request (lines 52-60).\<close>

record batch_submitter =
  orchestrator_url :: string
  spec_version :: int

definition init :: "string option \<Rightarrow> batch_submitter" where
  "init url =
     \<lparr>orchestrator_url =
        (case url of
           None \<Rightarrow> ''https://apex.api.macrocosmos.ai''
         | Some u \<Rightarrow> if u \<noteq> [] then u else ''https://apex.api.macrocosmos.ai''),
      spec_version = 100000\<rparr>"

subsection \<open>\<^verbatim>\<open>generate_header\<close>, lines 148-162\<close>

text \<open>
  \<open>sha256\<close> is the hash function of \<^verbatim>\<open>hashlib\<close>, from bytes to the 32 bytes of the
  digest; it is a parameter of the model.
\<close>

definition signed_message :: "(bytes \<Rightarrow> bytes) \<Rightarrow> bytes \<Rightarrow> int \<Rightarrow> string" where
  "signed_message sha256 body timestamp = hex (sha256 body) @ ''.'' @ str_int timestamp @ ''.''"

definition generate_header ::
  "(bytes \<Rightarrow> bytes) \<Rightarrow> batch_submitter \<Rightarrow> task_env \<Rightarrow> keypair \<Rightarrow> bytes
     \<Rightarrow> py_exception + (string \<times> string) list" where
  "generate_header sha256 self env hotkey body =
     (let timestamp = py_round (t_sign env * 1000);
          message = signed_message sha256 body timestamp
      in case sign env hotkey message of
           Inl e \<Rightarrow> Inl e
         | Inr signature \<Rightarrow>
             Inr [(''Epistula-Timestamp'', str_int timestamp),
                  (''Epistula-Signed-By'', ss58_address hotkey),
                  (''Epistula-Request-Signature'', ''0x'' @ hex signature),
                  (''X-Spec-Version'', str_int (spec_version self)),
                  (''X-Request-Id'', uuid4 env),
                  (''Content-Type'', ''application/json'')])"

section \<open>The transport client: \<^verbatim>\<open>submit_single\<close>, lines 164-230\<close>

text \<open>
  The outcome dictionary. A field is \<open>None\<close> when the dictionary has no such key, so a
  subscript of a missing key raises \<^verbatim>\<open>KeyError\<close>; \<^verbatim>\<open>response\<close> and
  \<^verbatim>\<open>error\<close> hold Python's \<^verbatim>\<open>None\<close> as the value \<open>PNone\<close>.
\<close>

record outcome =
  success :: "bool option"
  hotkey :: "pyval option"
  hotkey_short :: "pyval option"
  wallet_name :: "pyval option"
  hotkey_name :: "pyval option"
  response :: "pyval option"
  error :: "pyval option"
  duration :: "real option"
  repeat_num :: "int option"

definition subscript :: "string \<Rightarrow> 'a option \<Rightarrow> py_exception + 'a" where
  "subscript k v = (case v of None \<Rightarrow> Inl (KeyError k) | Some x \<Rightarrow> Inr x)"

text \<open>
  Lines 196-216, the statements of the \<^verbatim>\<open>try\<close> block up to the answer of the POST:
  the keypair is loaded, the request is built and signed, and the request is sent. The
  result is the response the transport observed, or the exception that was raised.
\<close>

definition send_request ::
  "(bytes \<Rightarrow> bytes) \<Rightarrow> batch_submitter \<Rightarrow> task_env \<Rightarrow> pyval \<Rightarrow> string \<Rightarrow> int \<Rightarrow> int
     \<Rightarrow> py_exception + http_response" where
  "send_request sha256 self env hotkey_path code competition_id round_number =
     (case load_keypair env hotkey_path of
        Inl e \<Rightarrow> Inl e
      | Inr kp \<Rightarrow>
          (let req = submit_request competition_id round_number code;
               body_bytes = create_message_body req
           in case generate_header sha256 self env kp body_bytes of
                Inl e \<Rightarrow> Inl e
              | Inr headers \<Rightarrow> post env (orchestrator_url self @ ''/miner/submission'') req headers))"

text \<open>
  Lines 218-228: the outcome for what the \<^verbatim>\<open>try\<close> block met. A status other than 200
  gives the error text; on status 200 \<^verbatim>\<open>success\<close> is set before the body is parsed,
  so a body that is not JSON leaves \<^verbatim>\<open>success\<close> true and the handler adds the
  exception text.
\<close>

definition record_response :: "task_env \<Rightarrow> outcome \<Rightarrow> py_exception + http_response \<Rightarrow> outcome" where
  "record_response env res sent =
     (case sent of
        Inl e \<Rightarrow> res\<lparr>duration := Some (t_except env - t_start env), error := Some (PStr (str_exc e))\<rparr>
      | Inr resp \<Rightarrow>
          (let res1 = res\<lparr>duration := Some (t_response env - t_start env)\<rparr>
           in if status_code resp = 200 then
                (case resp_json resp of
                   Inl e \<Rightarrow> res1\<lparr>success := Some True,
                                 duration := Some (t_except env - t_start env),
                                 error := Some (PStr (str_exc e))\<rparr>
                 | Inr body \<Rightarrow> res1\<lparr>success := Some True, response := Some body\<rparr>)
              else res1\<lparr>error := Some (PStr (''HTTP '' @ str_int (status_code resp) @ '': ''
                                                  @ resp_text resp))\<rparr>))"

text \<open>
  The whole function. Lines 177-191 run before the \<^verbatim>\<open>try\<close>: a missing key of
  \<^verbatim>\<open>hotkey_info\<close> or an address without a slice raises out of the task.
\<close>

definition submit_single ::
  "(bytes \<Rightarrow> bytes) \<Rightarrow> batch_submitter \<Rightarrow> task_env \<Rightarrow> pydict \<Rightarrow> string \<Rightarrow> int \<Rightarrow> int
     \<Rightarrow> py_exception + outcome" where
  "submit_single sha256 self env hotkey_info code competition_id round_number =
     (case getitem hotkey_info ''hotkey_path'' of
        Inl e \<Rightarrow> Inl e
      | Inr hotkey_path \<Rightarrow>
     (case getitem hotkey_info ''ss58_address'' of
        Inl e \<Rightarrow> Inl e
      | Inr address \<Rightarrow>
     (case getitem hotkey_info ''wallet_name'' of
        Inl e \<Rightarrow> Inl e
      | Inr wallet \<Rightarrow>
     (case getitem hotkey_info ''hotkey_name'' of
        Inl e \<Rightarrow> Inl e
      | Inr name \<Rightarrow>
     (case slice8 address of
        Inl e \<Rightarrow> Inl e
      | Inr short \<Rightarrow>
          Inr (record_response env
                 \<lparr>success = Some False, hotkey = Some address, hotkey_short = Some short,
                  wallet_name = Some wallet, hotkey_name = Some name,
                  response = Some PNone, error = Some PNone, duration = Some 0,
                  repeat_num = None\<rparr>
                 (send_request sha256 self env hotkey_path code competition_id
                    round_number)))))))"

section \<open>The batch scheduler: \<^verbatim>\<open>batch_submit\<close>, lines 232-328\<close>

subsection \<open>The join of a group\<close>

text \<open>
  \<^verbatim>\<open>asyncio.gather(*tasks, return_exceptions=True)\<close>: the tasks of a group finish in
  the order of their completion instants (the earlier position first among equal
  instants); the result of each, a value or the exception it raised, is stored in the slot
  of its position, and the slots are returned when every task is done.
\<close>

definition gather :: "(nat \<times> 'a) list \<Rightarrow> 'a list" where
  "gather tasks =
     (let completion = sort_key (\<lambda>k. fst (tasks ! k)) [0..<length tasks];
          slots = fold (\<lambda>k s. s[k := Some (snd (tasks ! k))]) completion
                    (replicate (length tasks) None)
      in List.map_filter (\<lambda>slot. slot) slots)"

subsection \<open>Lines 291-311: the results of one group\<close>

text \<open>Lines 292-297: the dictionary that replaces an exception.\<close>

definition failure_outcome :: "pydict list \<Rightarrow> nat \<Rightarrow> py_exception \<Rightarrow> py_exception + outcome" where
  "failure_outcome batch idx exc =
     (if idx < length batch then
        (case getitem (batch ! idx) ''ss58_address'' of
           Inl e \<Rightarrow> Inl e
         | Inr address \<Rightarrow>
             Inr \<lparr>success = Some False, hotkey = Some address, hotkey_short = None,
                  wallet_name = None, hotkey_name = None, response = None,
                  error = Some (PStr (str_exc exc)), duration = None, repeat_num = None\<rparr>)
      else Inl (Error ''list index out of range''))"

text \<open>
  Lines 304-311: the line printed for one result. Only the subscripts it evaluates are
  modelled, in their order; the text goes to the console.
\<close>

definition print_result :: "outcome \<Rightarrow> py_exception + unit" where
  "print_result r =
     (case subscript ''success'' (success r) of
        Inl e \<Rightarrow> Inl e
      | Inr ok \<Rightarrow>
     (case subscript ''hotkey_short'' (hotkey_short r) of
        Inl e \<Rightarrow> Inl e
      | Inr _ \<Rightarrow>
     (case subscript ''wallet_name'' (wallet_name r) of
        Inl e \<Rightarrow> Inl e
      | Inr _ \<Rightarrow>
     (case subscript ''hotkey_name'' (hotkey_name r) of
        Inl e \<Rightarrow> Inl e
      | Inr _ \<Rightarrow>
          (if ok then
             (case subscript ''duration'' (duration r) of Inl e \<Rightarrow> Inl e | Inr _ \<Rightarrow> Inr ())
           else
             (case subscript ''error'' (error r) of Inl e \<Rightarrow> Inl e | Inr _ \<Rightarrow> Inr ()))))))"

text \<open>The loop over \<^verbatim>\<open>enumerate(batch_results)\<close>; \<open>acc\<close> is the list \<^verbatim>\<open>results\<close>.\<close>

fun process_results ::
  "int \<Rightarrow> pydict list \<Rightarrow> nat \<Rightarrow> (py_exception + outcome) list \<Rightarrow> outcome list
     \<Rightarrow> py_exception + outcome list" where
  "process_results rn batch idx [] acc = Inr acc"
| "process_results rn batch idx (res # rest) acc =
     (case (case res of Inl exc \<Rightarrow> failure_outcome batch idx exc | Inr r \<Rightarrow> Inr r) of
        Inl e \<Rightarrow> Inl e
      | Inr r \<Rightarrow>
          (case print_result (r\<lparr>repeat_num := Some rn\<rparr>) of
             Inl e \<Rightarrow> Inl e
           | Inr _ \<Rightarrow>
               process_results rn batch (Suc idx) rest (acc @ [r\<lparr>repeat_num := Some rn\<rparr>])))"

subsection \<open>Lines 274-318: the groups of one repeat cycle\<close>

text \<open>
  \<^verbatim>\<open>range(0, n, step)\<close>: a zero step raises, a negative step gives no index for a
  stop that is not negative.
\<close>

function range_from :: "nat \<Rightarrow> nat \<Rightarrow> nat \<Rightarrow> nat list" where
  "range_from i n step = (if 0 < step \<and> i < n then i # range_from (i + step) n step else [])"
  by pat_completeness auto
termination
  by (relation "measure (\<lambda>(i, n, step). n - i)") auto

declare range_from.simps [simp del]

definition py_range :: "nat \<Rightarrow> int \<Rightarrow> py_exception + nat list" where
  "py_range n step =
     (if step = 0 then Inl (ValueError ''range() arg 3 must not be zero'')
      else if step < 0 then Inr []
      else Inr (range_from 0 n (nat step)))"

text \<open>
  What a run did and gave: the groups whose tasks were launched, in order, and the value
  returned or the exception that left the function.
\<close>

record 'a run =
  launched :: "pydict list list"
  returned :: "py_exception + 'a"

text \<open>
  The world gives every task its environment: \<open>world rn j\<close> is the environment of the
  submission of the identity at position \<open>j\<close> of \<^verbatim>\<open>hotkeys\<close> in repeat cycle \<open>rn\<close>.
  The pauses of lines 313-316 and 322-325 only wait and are left out.
\<close>

type_synonym world = "int \<Rightarrow> nat \<Rightarrow> task_env"

definition run_group ::
  "(bytes \<Rightarrow> bytes) \<Rightarrow> batch_submitter \<Rightarrow> world \<Rightarrow> string \<Rightarrow> int \<Rightarrow> int \<Rightarrow> nat \<Rightarrow> pydict list
     \<Rightarrow> (py_exception + outcome) list" where
  "run_group sha256 self w code competition_id rn i batch =
     gather (map (\<lambda>(k, hotkey_info).
                    (finished_at (w rn (i + k)),
                     submit_single sha256 self (w rn (i + k)) hotkey_info code competition_id (- 1)))
               (enumerate 0 batch))"

fun submit_batches ::
  "(bytes \<Rightarrow> bytes) \<Rightarrow> batch_submitter \<Rightarrow> world \<Rightarrow> pydict list \<Rightarrow> string \<Rightarrow> int \<Rightarrow> int \<Rightarrow> int
     \<Rightarrow> nat list \<Rightarrow> outcome list \<Rightarrow> (outcome list) run" where
  "submit_batches sha256 self w hotkeys code competition_id max_workers rn [] acc =
     \<lparr>launched = [], returned = Inr acc\<rparr>"
| "submit_batches sha256 self w hotkeys code competition_id max_workers rn (i # js) acc =
     (let batch = take (nat max_workers) (drop i hotkeys);
          batch_results = run_group sha256 self w code competition_id rn i batch
      in case process_results rn batch 0 batch_results acc of
           Inl e \<Rightarrow> \<lparr>launched = [batch], returned = Inl e\<rparr>
         | Inr acc' \<Rightarrow>
             (let rest = submit_batches sha256 self w hotkeys code competition_id max_workers
                           rn js acc'
              in rest\<lparr>launched := batch # launched rest\<rparr>))"

definition submit_cycle ::
  "(bytes \<Rightarrow> bytes) \<Rightarrow> batch_submitter \<Rightarrow> world \<Rightarrow> pydict list \<Rightarrow> string \<Rightarrow> int \<Rightarrow> int \<Rightarrow> int
     \<Rightarrow> (outcome list) run" where
  "submit_cycle sha256 self w hotkeys code competition_id max_workers rn =
     (case py_range (length hotkeys) max_workers of
        Inl e \<Rightarrow> \<lparr>launched = [], returned = Inl e\<rparr>
      | Inr js \<Rightarrow> submit_batches sha256 self w hotkeys code competition_id max_workers rn js [])"

subsection \<open>Lines 266-328: the repeat cycles\<close>

fun submit_repeats ::
  "(bytes \<Rightarrow> bytes) \<Rightarrow> batch_submitter \<Rightarrow> world \<Rightarrow> pydict list \<Rightarrow> string \<Rightarrow> int \<Rightarrow> int
     \<Rightarrow> int list \<Rightarrow> outcome list \<Rightarrow> (outcome list) run" where
  "submit_repeats sha256 self w hotkeys code competition_id max_workers [] all_results =
     \<lparr>launched = [], returned = Inr all_results\<rparr>"
| "submit_repeats sha256 self w hotkeys code competition_id max_workers (rn # rns) all_results =
     (let cyc = submit_cycle sha256 self w hotkeys code competition_id max_workers rn
      in case returned cyc of
           Inl e \<Rightarrow> \<lparr>launched = launched cyc, returned = Inl e\<rparr>
         | Inr results \<Rightarrow>
             (let rest = submit_repeats sha256 self w hotkeys code competition_id max_workers
                           rns (all_results @ results)
              in rest\<lparr>launched := launched cyc @ launched rest\<rparr>))"

definition batch_submit ::
  "(bytes \<Rightarrow> bytes) \<Rightarrow> batch_submitter \<Rightarrow> world \<Rightarrow> pydict list \<Rightarrow> string \<Rightarrow> int \<Rightarrow> int \<Rightarrow> int
     \<Rightarrow> (outcome list) run" where
  "batch_submit sha256 self w hotkeys code competition_id max_workers repeat =
     submit_repeats sha256 self w hotkeys code competition_id max_workers [1..repeat] []"

section \<open>The result aggregator: \<^verbatim>\<open>print_summary\<close>, lines 330-364\<close>

text \<open>The lines of the summary, in the order they are printed, without their layout.\<close>

datatype summary_line =
    Rule
  | Title
  | TotalSubmissions nat
  | Successful nat
  | Failed nat
  | NumberOfRepeats int
  | RepeatLine int nat nat
  | AverageDuration real
  | FailedHeading
  | FailedSubmission pyval "int option" pyval

text \<open>\<^verbatim>\<open>sum(1 for r in results if r["success"])\<close>.\<close>

fun count_success :: "outcome list \<Rightarrow> py_exception + nat" where
  "count_success [] = Inr 0"
| "count_success (r # rs) =
     (case subscript ''success'' (success r) of
        Inl e \<Rightarrow> Inl e
      | Inr ok \<Rightarrow>
          (case count_success rs of
             Inl e \<Rightarrow> Inl e
           | Inr n \<Rightarrow> Inr (if ok then Suc n else n)))"

text \<open>\<^verbatim>\<open>sum(r["duration"] for r in results if r["success"])\<close>.\<close>

fun sum_durations :: "outcome list \<Rightarrow> py_exception + real" where
  "sum_durations [] = Inr 0"
| "sum_durations (r # rs) =
     (case subscript ''success'' (success r) of
        Inl e \<Rightarrow> Inl e
      | Inr ok \<Rightarrow>
          (if ok then
             (case subscript ''duration'' (duration r) of
                Inl e \<Rightarrow> Inl e
              | Inr d \<Rightarrow>
                  (case sum_durations rs of Inl e \<Rightarrow> Inl e | Inr t \<Rightarrow> Inr (d + t)))
           else sum_durations rs))"

text \<open>The division \<^verbatim>\<open>/\<close> of Python raises on a zero divisor.\<close>

definition truediv :: "real \<Rightarrow> nat \<Rightarrow> py_exception + real" where
  "truediv x n = (if n = 0 then Inl ZeroDivisionError else Inr (x / real n))"

text \<open>Lines 352-354: the average is computed and printed under the guard only.\<close>

definition average_lines :: "outcome list \<Rightarrow> nat \<Rightarrow> py_exception + summary_line list" where
  "average_lines results successful =
     (if 0 < successful then
        (case sum_durations results of
           Inl e \<Rightarrow> Inl e
         | Inr t \<Rightarrow>
             (case truediv t successful of
                Inl e \<Rightarrow> Inl e
              | Inr avg_duration \<Rightarrow> Inr [AverageDuration avg_duration]))
      else Inr [])"

text \<open>Lines 344-350: the breakdown by repeat cycle.\<close>

fun repeat_lines :: "outcome list \<Rightarrow> int list \<Rightarrow> py_exception + summary_line list" where
  "repeat_lines results [] = Inr []"
| "repeat_lines results (n # ns) =
     (let repeat_results = filter (\<lambda>r. repeat_num r = Some n) results
      in case count_success repeat_results of
           Inl e \<Rightarrow> Inl e
         | Inr repeat_success \<Rightarrow>
             (case repeat_lines results ns of
                Inl e \<Rightarrow> Inl e
              | Inr ls \<Rightarrow> Inr (RepeatLine n repeat_success (length repeat_results) # ls)))"

definition breakdown_lines :: "outcome list \<Rightarrow> py_exception + summary_line list" where
  "breakdown_lines results =
     (let repeats = remdups (List.map_filter repeat_num results)
      in if 1 < length repeats then
           (case repeat_lines results (sort repeats) of
              Inl e \<Rightarrow> Inl e
            | Inr ls \<Rightarrow> Inr (NumberOfRepeats (Max (set repeats)) # ls))
         else Inr [])"

text \<open>Lines 359-364: the failed submissions, with the defaults of \<^verbatim>\<open>dict.get\<close>.\<close>

fun failed_lines :: "outcome list \<Rightarrow> py_exception + summary_line list" where
  "failed_lines [] = Inr []"
| "failed_lines (r # rs) =
     (case subscript ''success'' (success r) of
        Inl e \<Rightarrow> Inl e
      | Inr ok \<Rightarrow>
          (case failed_lines rs of
             Inl e \<Rightarrow> Inl e
           | Inr ls \<Rightarrow>
               Inr (if ok then ls
                    else FailedSubmission
                           (case hotkey_short r of None \<Rightarrow> PStr ''unknown'' | Some v \<Rightarrow> v)
                           (repeat_num r)
                           (case error r of None \<Rightarrow> PStr ''Unknown error'' | Some v \<Rightarrow> v) # ls)))"

definition print_summary :: "outcome list \<Rightarrow> py_exception + summary_line list" where
  "print_summary results =
     (case count_success results of
        Inl e \<Rightarrow> Inl e
      | Inr successful \<Rightarrow>
     (case breakdown_lines results of
        Inl e \<Rightarrow> Inl e
      | Inr bs \<Rightarrow>
     (case average_lines results successful of
        Inl e \<Rightarrow> Inl e
      | Inr avs \<Rightarrow>
     (case (if 0 < length results - successful then
              (case failed_lines results of Inl e \<Rightarrow> Inl e | Inr fs \<Rightarrow> Inr (FailedHeading # fs))
            else Inr []) of
        Inl e \<Rightarrow> Inl e
      | Inr fs \<Rightarrow>
          Inr ([Rule, Title, Rule, TotalSubmissions (length results), Successful successful,
                Failed (length results - successful)] @ bs @ avs @ [Rule] @ fs)))))"

section \<open>The entry point: \<^verbatim>\<open>main\<close>, lines 367-536\<close>

text \<open>
  The parsed command line, as far as it reaches a submission, and what \<^verbatim>\<open>main\<close> finds
  outside the program: whether the solution file exists, its text (or the exception of
  reading it), the identities that \<^verbatim>\<open>find_all_hotkeys\<close> returns from its scan of the
  wallet directory (lines 67-124), and the world of the submissions.
\<close>

record args =
  arg_competition_id :: int
  arg_max_workers :: int
  arg_repeat :: int
  arg_dry_run :: bool
  arg_orchestrator_url :: "string option"

record main_env =
  solution_exists :: bool
  solution_text :: "py_exception + string"
  found_hotkeys :: "pydict list"
  submissions :: world

text \<open>Lines 502-505: the identities are listed before anything is sent.\<close>

fun print_hotkeys :: "pydict list \<Rightarrow> py_exception + unit" where
  "print_hotkeys [] = Inr ()"
| "print_hotkeys (hk # hks) =
     (case getitem hk ''wallet_name'' of
        Inl e \<Rightarrow> Inl e
      | Inr _ \<Rightarrow>
     (case getitem hk ''hotkey_name'' of
        Inl e \<Rightarrow> Inl e
      | Inr _ \<Rightarrow>
     (case getitem hk ''ss58_address'' of
        Inl e \<Rightarrow> Inl e
      | Inr address \<Rightarrow>
     (case slice8 address of
        Inl e \<Rightarrow> Inl e
      | Inr _ \<Rightarrow> print_hotkeys hks))))"

text \<open>\<^verbatim>\<open>all(r["success"] for r in results)\<close> stops at the first failure.\<close>

fun all_success :: "outcome list \<Rightarrow> py_exception + bool" where
  "all_success [] = Inr True"
| "all_success (r # rs) =
     (case subscript ''success'' (success r) of
        Inl e \<Rightarrow> Inl e
      | Inr ok \<Rightarrow> if ok then all_success rs else Inr False)"

definition main :: "(bytes \<Rightarrow> bytes) \<Rightarrow> main_env \<Rightarrow> args \<Rightarrow> int run" where
  "main sha256 env a =
     (if \<not> solution_exists env then \<lparr>launched = [], returned = Inr 1\<rparr>
      else
        (case solution_text env of
           Inl e \<Rightarrow> \<lparr>launched = [], returned = Inr 1\<rparr>
         | Inr content \<Rightarrow>
             (let code = strip content
              in if code = [] then \<lparr>launched = [], returned = Inr 1\<rparr>
                 else
                   (let submitter = init (arg_orchestrator_url a);
                        hotkeys = found_hotkeys env
                    in if hotkeys = [] then \<lparr>launched = [], returned = Inr 1\<rparr>
                       else
                         (case print_hotkeys hotkeys of
                            Inl e \<Rightarrow> \<lparr>launched = [], returned = Inl e\<rparr>
                          | Inr _ \<Rightarrow>
                              if arg_dry_run a then \<lparr>launched = [], returned = Inr 0\<rparr>
                              else
                                (let batch = batch_submit sha256 submitter (submissions env)
                                               hotkeys code (arg_competition_id a)
                                               (arg_max_workers a) (arg_repeat a)
                                 in case returned batch of
                                      Inl e \<Rightarrow> \<lparr>launched = launched batch, returned = Inl e\<rparr>
                                    | Inr results \<Rightarrow>
                                        (case print_summary results of
                                           Inl e \<Rightarrow> \<lparr>launched = launched batch, returned = Inl e\<rparr>
                                         | Inr _ \<Rightarrow>
                                             (case all_success results of
                                                Inl e \<Rightarrow>
                                                  \<lparr>launched = launched batch, returned = Inl e\<rparr>
                                              | Inr ok \<Rightarrow>
                                                  \<lparr>launched = launched batch,
                                                   returned = Inr (if ok then 0 else 1)\<rparr>))))))))"

text \<open>
  \<^verbatim>\<open>exit(main())\<close>, line 540: the exit code of the process is the integer returned; the
  interpreter ends with code 1 when an exception leaves \<^verbatim>\<open>main\<close>.
\<close>

definition exit_code :: "int run \<Rightarrow> int" where
  "exit_code r = (case returned r of Inl e \<Rightarrow> 1 | Inr c \<Rightarrow> c)"

section \<open>Identities\<close>

text \<open>
  An identity as the discovery scan builds it for a key file with a string address: the
  four keys are present and hold strings.
\<close>

fun is_str :: "pyval option \<Rightarrow> bool" where
  "is_str (Some (PStr s)) = True"
| "is_str _ = False"

definition is_identity :: "pydict \<Rightarrow> bool" where
  "is_identity h =
     (is_str (map_of h ''wallet_name'') \<and> is_str (map_of h ''hotkey_name'') \<and>
      is_str (map_of h ''hotkey_path'') \<and> is_str (map_of h ''ss58_address''))"

text \<open>
  An outcome with every key that \<^verbatim>\<open>submit_single\<close> writes and the printing reads.
\<close>

definition complete_outcome :: "outcome \<Rightarrow> bool" where
  "complete_outcome r =
     (success r \<noteq> None \<and> hotkey_short r \<noteq> None \<and> wallet_name r \<noteq> None \<and>
      hotkey_name r \<noteq> None \<and> error r \<noteq> None \<and> duration r \<noteq> None)"

text \<open>
  The outcomes of the tasks that return, for the identities \<open>batch\<close> at the positions from
  \<open>i\<close> on, in the order of the identities.
\<close>

definition returned_outcomes ::
  "(bytes \<Rightarrow> bytes) \<Rightarrow> batch_submitter \<Rightarrow> world \<Rightarrow> string \<Rightarrow> int \<Rightarrow> int \<Rightarrow> nat \<Rightarrow> pydict list
     \<Rightarrow> outcome list" where
  "returned_outcomes sha256 self w code competition_id rn i batch =
     List.map_filter
       (\<lambda>(j, hotkey_info).
          case submit_single sha256 self (w rn j) hotkey_info code competition_id (- 1) of
            Inl e \<Rightarrow> None
          | Inr r \<Rightarrow> Some r)
       (enumerate i batch)"

text \<open>The same world with other completion instants for its tasks.\<close>

definition reschedule :: "(int \<Rightarrow> nat \<Rightarrow> nat) \<Rightarrow> world \<Rightarrow> world" where
  "reschedule f w = (\<lambda>rn j. (w rn j)\<lparr>finished_at := f rn j\<rparr>)"

text \<open>The value of a header of the envelope, when the signing returned one.\<close>

definition header :: "string \<Rightarrow> py_exception + (string \<times> string) list \<Rightarrow> string option" where
  "header k hs = (case hs of Inl e \<Rightarrow> None | Inr kvs \<Rightarrow> map_of kvs k)"

section \<open>Test doubles\<close>

text \<open>
  Concrete identities and a concrete world, on which the theorems below are instantiated:
  a hash function and a signature that only cut their input, a service that answers with
  a given status, and tasks that finish in the reverse order of their positions.
\<close>

definition toy_sha256 :: "bytes \<Rightarrow> bytes" where
  "toy_sha256 b = take 2 b"

definition toy_keypair :: keypair where
  "toy_keypair = \<lparr>ss58_address = ''5Falice'', private_key = ''00''\<rparr>"

definition toy_env :: "int \<Rightarrow> real \<Rightarrow> string \<Rightarrow> task_env" where
  "toy_env status clock uuid =
     \<lparr>t_start = 10,
      load_keypair = (\<lambda>path. Inr toy_keypair),
      t_sign = clock,
      sign = (\<lambda>kp message. Inr (take 3 message)),
      uuid4 = uuid,
      post = (\<lambda>url req headers. Inr \<lparr>status_code = status, resp_text = ''busy'',
                                       resp_json = Inr (PDict [(''ok'', PBool True)])\<rparr>),
      t_response = 12,
      t_except = 13,
      finished_at = 0\<rparr>"

definition toy_world :: world where
  "toy_world rn j = (toy_env (if j = 1 then 500 else 200) 11 ''id'')\<lparr>finished_at := 9 - j\<rparr>"

definition identity :: "string \<Rightarrow> pydict" where
  "identity a =
     [(''wallet_name'', PStr ''mama''), (''hotkey_name'', PStr a),
      (''hotkey_path'', PStr (''/wallets/mama/hotkeys/'' @ a)), (''ss58_address'', PStr a)]"

definition toy_outcome :: "bool \<Rightarrow> real \<Rightarrow> outcome" where
  "toy_outcome ok d =
     \<lparr>success = Some ok, hotkey = Some (PStr ''apex0''), hotkey_short = Some (PStr ''apex0''),
      wallet_name = Some (PStr ''mama''), hotkey_name = Some (PStr ''apex0''),
      response = Some PNone, error = Some PNone, duration = Some d, repeat_num = Some 1\<rparr>"

definition toy_main_env :: "pydict list \<Rightarrow> main_env" where
  "toy_main_env hs =
     \<lparr>solution_exists = True, solution_text = Inr '' code '', found_hotkeys = hs,
      submissions = toy_world\<rparr>"

definition toy_args :: "bool \<Rightarrow> args" where
  "toy_args dry =
     \<lparr>arg_competition_id = 1, arg_max_workers = 2, arg_repeat = 2, arg_dry_run = dry,
      arg_orchestrator_url = None\<rparr>"

text \<open>An identity read from a key file whose address is the number 12345.\<close>

definition numbered :: pydict where
  "numbered =
     [(''wallet_name'', PStr ''mama''), (''hotkey_name'', PStr ''apex0''),
      (''hotkey_path'', PStr ''/wallets/mama/hotkeys/apex0''), (''ss58_address'', PInt 12345)]"

section \<open>Auxiliary facts\<close>

subsection \<open>Decimal rendering\<close>

lemma digit_char_inj: "a < 16 \<Longrightarrow> b < 16 \<Longrightarrow> digit_char a = digit_char b \<Longrightarrow> a = b"
proof -
  assume a: "a < 16" and b: "b < 16" and eq: "digit_char a = digit_char b"
  have d: "distinct ''0123456789abcdef''" by simp
  have l: "length ''0123456789abcdef'' = 16" by simp
  from eq have "''0123456789abcdef'' ! a = ''0123456789abcdef'' ! b"
    unfolding digit_char_def .
  with d a b l show "a = b"
    by (metis nth_eq_iff_index_eq)
qed

lemma digit_char_decimal: "d < 10 \<Longrightarrow> digit_char d \<in> set ''0123456789''"
proof -
  assume "d < 10"
  then have "d \<in> {0,1,2,3,4,5,6,7,8,9}" by auto
  then show ?thesis unfolding digit_char_def by auto
qed

lemma str_nat_small: "n < 10 \<Longrightarrow> str_nat n = [digit_char n]"
  by (subst str_nat.simps) simp

lemma str_nat_large: "\<not> n < 10 \<Longrightarrow> str_nat n = str_nat (n div 10) @ [digit_char (n mod 10)]"
  by (subst str_nat.simps) simp

lemma str_nat_digits: "set (str_nat n) \<subseteq> set ''0123456789''"
proof (induction n rule: str_nat.induct)
  case (1 n)
  show ?case
  proof (cases "n < 10")
    case True
    have "set [digit_char n] \<subseteq> set ''0123456789''"
      using digit_char_decimal [OF True] by simp
    then show ?thesis unfolding str_nat_small [OF True] .
  next
    case False
    have "n mod 10 < 10" by simp
    then have "digit_char (n mod 10) \<in> set ''0123456789''" by (rule digit_char_decimal)
    with 1 [OF False] have "set (str_nat (n div 10) @ [digit_char (n mod 10)]) \<subseteq> set ''0123456789''"
      by simp
    then show ?thesis unfolding str_nat_large [OF False] .
  qed
qed

lemma str_nat_nonempty: "str_nat n \<noteq> []"
  by (cases "n < 10") (simp_all add: str_nat_small str_nat_large)

lemma str_nat_inj: "str_nat m = str_nat n \<Longrightarrow> m = n"
proof (induction m arbitrary: n rule: str_nat.induct)
  case (1 m)
  show ?case
  proof (cases "m < 10")
    case True
    note m = str_nat_small [OF True]
    show ?thesis
    proof (cases "n < 10")
      case n: True
      from "1.prems" have "[digit_char m] = [digit_char n]"
        unfolding m str_nat_small [OF n] .
      then have "digit_char m = digit_char n" by simp
      then show ?thesis using True n by (intro digit_char_inj) simp_all
    next
      case False
      from "1.prems" have "[digit_char m] = str_nat (n div 10) @ [digit_char (n mod 10)]"
        unfolding m str_nat_large [OF False] .
      then have "str_nat (n div 10) = []" by (simp add: Cons_eq_append_conv)
      then show ?thesis using str_nat_nonempty by blast
    qed
  next
    case False
    note m = str_nat_large [OF False]
    show ?thesis
    proof (cases "n < 10")
      case True
      from "1.prems" have "str_nat (m div 10) @ [digit_char (m mod 10)] = [digit_char n]"
        unfolding m str_nat_small [OF True] .
      then have "str_nat (m div 10) = []" by (simp add: append_eq_Cons_conv)
      then show ?thesis using str_nat_nonempty by blast
    next
      case n: False
      from "1.prems"
      have "str_nat (m div 10) @ [digit_char (m mod 10)] = str_nat (n div 10) @ [digit_char (n mod 10)]"
        unfolding m str_nat_large [OF n] .
      then have eq: "str_nat (m div 10) = str_nat (n div 10)"
        and d: "digit_char (m mod 10) = digit_char (n mod 10)" by simp_all
      from "1.IH" [OF False eq] have q: "m div 10 = n div 10" .
      have "m mod 10 < 16" "n mod 10 < 16" by simp_all
      with d have r: "m mod 10 = n mod 10" by (intro digit_char_inj)
      have "m = 10 * (m div 10) + m mod 10" by simp
      also have "\<dots> = 10 * (n div 10) + n mod 10" unfolding q r ..
      also have "\<dots> = n" by simp
      finally show ?thesis .
    qed
  qed
qed

lemma str_nat_no_minus: "str_nat n \<noteq> CHR ''-'' # s"
proof
  assume "str_nat n = CHR ''-'' # s"
  then have "CHR ''-'' \<in> set (str_nat n)" by simp
  with str_nat_digits [of n] show False by auto
qed

lemma str_int_inj: "str_int i = str_int j \<Longrightarrow> i = j"
proof -
  assume eq: "str_int i = str_int j"
  show ?thesis
  proof (cases "i < 0")
    case True
    then have i: "str_int i = CHR ''-'' # str_nat (nat (- i))" by (simp add: str_int_def)
    show ?thesis
    proof (cases "j < 0")
      case j: True
      then have "str_int j = CHR ''-'' # str_nat (nat (- j))" by (simp add: str_int_def)
      with i eq have "str_nat (nat (- i)) = str_nat (nat (- j))" by simp
      then have "nat (- i) = nat (- j)" by (rule str_nat_inj)
      then show ?thesis using True j by simp
    next
      case False
      then have "str_int j = str_nat (nat j)" by (simp add: str_int_def)
      with i eq have "str_nat (nat j) = CHR ''-'' # str_nat (nat (- i))" by simp
      then show ?thesis using str_nat_no_minus by blast
    qed
  next
    case False
    then have i: "str_int i = str_nat (nat i)" by (simp add: str_int_def)
    show ?thesis
    proof (cases "j < 0")
      case True
      then have "str_int j = CHR ''-'' # str_nat (nat (- j))" by (simp add: str_int_def)
      with i eq have "str_nat (nat i) = CHR ''-'' # str_nat (nat (- j))" by simp
      then show ?thesis using str_nat_no_minus by blast
    next
      case j: False
      then have "str_int j = str_nat (nat j)" by (simp add: str_int_def)
      with i eq have "str_nat (nat i) = str_nat (nat j)" by simp
      then have "nat i = nat j" by (rule str_nat_inj)
      then show ?thesis using False j by simp
    qed
  qed
qed

lemma str_int_unquoted: "CHR 0x22 \<notin> set (str_int i)"
proof -
  have "CHR 0x22 \<notin> set (str_nat n)" for n
    using str_nat_digits [of n] by auto
  then show ?thesis by (simp add: str_int_def)
qed

subsection \<open>The join and the range\<close>

lemma fold_update_slots:
  "set ks \<subseteq> {..<length s} \<Longrightarrow>
   fold (\<lambda>k s. s[k := f k]) ks s = map (\<lambda>k. if k \<in> set ks then f k else s ! k) [0..<length s]"
proof (induction ks arbitrary: s)
  case Nil
  then show ?case by (simp add: map_nth)
next
  case (Cons k ks)
  have "fold (\<lambda>k s. s[k := f k]) (k # ks) s = fold (\<lambda>k s. s[k := f k]) ks (s[k := f k])"
    by simp
  also have "\<dots> = map (\<lambda>j. if j \<in> set ks then f j else s[k := f k] ! j) [0..<length (s[k := f k])]"
    using Cons.prems by (intro Cons.IH) auto
  also have "\<dots> = map (\<lambda>j. if j \<in> set (k # ks) then f j else s ! j) [0..<length s]"
    by (auto simp: nth_list_update)
  finally show ?case .
qed

lemma map_filter_Some: "List.map_filter (\<lambda>slot. slot) (map Some xs) = xs"
  by (induction xs) simp_all

lemma gather_positional: "gather tasks = map snd tasks"
proof -
  let ?n = "length tasks"
  let ?order = "sort_key (\<lambda>k. fst (tasks ! k)) [0..<?n]"
  let ?f = "\<lambda>k. Some (snd (tasks ! k))"
  have "set ?order \<subseteq> {..<length (replicate ?n (None :: 'a option))}"
    by auto
  then have "fold (\<lambda>k s. s[k := ?f k]) ?order (replicate ?n None)
        = map (\<lambda>k. if k \<in> set ?order then ?f k else replicate ?n None ! k)
            [0..<length (replicate ?n (None :: 'a option))]"
    by (rule fold_update_slots)
  also have "\<dots> = map Some (map (\<lambda>k. snd (tasks ! k)) [0..<?n])"
    by simp
  also have "map (\<lambda>k. snd (tasks ! k)) [0..<?n] = map snd tasks"
    by (rule nth_equalityI) simp_all
  finally have slots: "fold (\<lambda>k s. s[k := ?f k]) ?order (replicate ?n None) = map Some (map snd tasks)" .
  show ?thesis
    unfolding gather_def Let_def slots by (rule map_filter_Some)
qed

lemma map_enumerate_shift:
  "map (\<lambda>(k, h). f (i + k) h) (enumerate m xs) = map (\<lambda>(j, h). f j h) (enumerate (i + m) xs)"
proof (induction xs arbitrary: m)
  case Nil
  show ?case by simp
next
  case (Cons x xs)
  from Cons [of "Suc m"] show ?case by simp
qed

lemma length_range_from:
  "0 < c \<Longrightarrow> length (range_from i n c) = (n - i + c - 1) div c"
proof (induction i n c rule: range_from.induct)
  case (1 i n step)
  show ?case
  proof (cases "i < n")
    case True
    then have len: "length (range_from i n step) = Suc ((n - (i + step) + step - 1) div step)"
      using 1 by (subst range_from.simps) simp
    show ?thesis
    proof (cases "i + step \<le> n")
      case True
      define x where "x = n - (i + step) + step - 1"
      have "n - i + step - 1 = x + step"
        using True \<open>0 < step\<close> unfolding x_def by arith
      moreover have "(x + step) div step = Suc (x div step)"
        using \<open>0 < step\<close> by simp
      ultimately show ?thesis using len unfolding x_def by presburger
    next
      case False
      define y where "y = n - i - 1"
      have a: "n - (i + step) + step - 1 = step - 1" using False by arith
      have b: "n - i + step - 1 = y + step" using \<open>i < n\<close> unfolding y_def by arith
      have c: "y < step" using False \<open>i < n\<close> unfolding y_def by arith
      have "(step - 1) div step = 0" using \<open>0 < step\<close> by simp
      moreover have "(y + step) div step = Suc 0" using c \<open>0 < step\<close> by simp
      ultimately show ?thesis using len a b by presburger
    qed
  next
    case False
    then have "range_from i n step = []" by (subst range_from.simps) simp
    moreover have "(n - i + step - 1) div step = 0" using False \<open>0 < step\<close> by simp
    ultimately show ?thesis by simp
  qed
qed

subsection \<open>Tasks of identities, groups and cycles\<close>

lemma ceil_div:
  assumes "0 < c"
  shows "(n + c - 1) div c = nat \<lceil>real n / real c\<rceil>"
proof -
  define q where "q = (n + c - 1) div c"
  have lo: "q * c \<le> n + c - 1" unfolding q_def by simp
  have hi: "n + c - 1 < c + q * c"
    unfolding q_def using assms by (rule dividend_less_div_times)
  have A: "n \<le> q * c" using hi assms by arith
  have B: "q * c < n + c" using lo assms by arith
  have "real n \<le> real (q * c)" using A by (simp only: of_nat_le_iff)
  then have "real n \<le> real q * real c" by simp
  then have up: "real n / real c \<le> real q" using assms by (simp add: pos_divide_le_eq)
  have "real (q * c) < real (n + c)" using B by (simp only: of_nat_less_iff)
  then have "real q * real c < real n + real c" by simp
  then have "(real q - 1) * real c < real n" by (simp add: algebra_simps)
  then have dn: "real q - 1 < real n / real c" using assms by (simp add: pos_less_divide_eq)
  have "\<lceil>real n / real c\<rceil> = int q"
    by (rule ceiling_unique) (use up dn in simp_all)
  then show ?thesis unfolding q_def by simp
qed

lemma record_response_hotkey [simp]:
  "hotkey (record_response env res sent) = hotkey res"
  "repeat_num (record_response env res sent) = repeat_num res"
  by (simp_all add: record_response_def Let_def split: sum.splits)

lemma record_response_complete: "complete_outcome res \<Longrightarrow> complete_outcome (record_response env res sent)"
  by (auto simp: complete_outcome_def record_response_def Let_def split: sum.splits)

lemma is_strE: "is_str v \<Longrightarrow> \<exists>s. v = Some (PStr s)"
  by (erule is_str.elims) simp_all

lemma submit_single_identity:
  assumes "is_identity h"
  shows "\<exists>r. submit_single sha256 self env h code cid rnd = Inr r \<and> complete_outcome r
           \<and> hotkey r = map_of h ''ss58_address'' \<and> repeat_num r = None"
proof -
  from assms obtain a b c d where
    "map_of h ''wallet_name'' = Some (PStr a)" "map_of h ''hotkey_name'' = Some (PStr b)"
    "map_of h ''hotkey_path'' = Some (PStr c)" "map_of h ''ss58_address'' = Some (PStr d)"
    unfolding is_identity_def by (blast dest: is_strE)
  then have "submit_single sha256 self env h code cid rnd =
      Inr (record_response env
             \<lparr>success = Some False, hotkey = Some (PStr d), hotkey_short = Some (PStr (take 8 d)),
              wallet_name = Some (PStr a), hotkey_name = Some (PStr b),
              response = Some PNone, error = Some PNone, duration = Some 0,
              repeat_num = None\<rparr>
             (send_request sha256 self env (PStr c) code cid rnd))"
    and "map_of h ''ss58_address'' = Some (PStr d)"
    by (simp_all add: submit_single_def getitem_def)
  moreover have "complete_outcome \<lparr>success = Some False, hotkey = Some (PStr d),
              hotkey_short = Some (PStr (take 8 d)),
              wallet_name = Some (PStr a), hotkey_name = Some (PStr b),
              response = Some PNone, error = Some PNone, duration = Some 0,
              repeat_num = None\<rparr>"
    by (simp add: complete_outcome_def)
  ultimately show ?thesis
    using record_response_complete by fastforce
qed

lemma print_result_complete: "complete_outcome r \<Longrightarrow> print_result (r\<lparr>repeat_num := x\<rparr>) = Inr ()"
  by (auto simp: complete_outcome_def print_result_def subscript_def)

lemma process_results_complete:
  "\<forall>r\<in>set rs. complete_outcome r \<Longrightarrow>
   process_results rn batch idx (map Inr rs) acc = Inr (acc @ map (\<lambda>r. r\<lparr>repeat_num := Some rn\<rparr>) rs)"
  by (induction rs arbitrary: idx acc) (simp_all add: print_result_complete)

lemma run_group_positional:
  "run_group sha256 self w code cid rn i batch =
     map (\<lambda>(j, h). submit_single sha256 self (w rn j) h code cid (- 1)) (enumerate i batch)"
proof -
  have "map snd (map (\<lambda>(k, h). (finished_at (w rn (i + k)),
                    submit_single sha256 self (w rn (i + k)) h code cid (- 1))) (enumerate 0 batch))
      = map (\<lambda>(k, h). submit_single sha256 self (w rn (i + k)) h code cid (- 1)) (enumerate 0 batch)"
    by (simp add: case_prod_beta)
  also have "\<dots> = map (\<lambda>(j, h). submit_single sha256 self (w rn j) h code cid (- 1))
                      (enumerate (i + 0) batch)"
    by (rule map_enumerate_shift [where f = "\<lambda>j h. submit_single sha256 self (w rn j) h code cid (- 1)"])
  finally show ?thesis by (simp add: run_group_def gather_positional)
qed

lemma tasks_of_identities:
  "\<forall>h\<in>set batch. is_identity h \<Longrightarrow>
   map (\<lambda>(j, h). submit_single sha256 self (w rn j) h code cid (- 1)) (enumerate i batch)
     = map Inr (returned_outcomes sha256 self w code cid rn i batch)
   \<and> (\<forall>r\<in>set (returned_outcomes sha256 self w code cid rn i batch). complete_outcome r \<and> repeat_num r = None)
   \<and> map hotkey (returned_outcomes sha256 self w code cid rn i batch)
       = map (\<lambda>h. map_of h ''ss58_address'') batch"
proof (induction batch arbitrary: i)
  case Nil
  show ?case by (simp add: returned_outcomes_def List.map_filter_def)
next
  case (Cons h hs)
  then have "is_identity h" by simp
  from submit_single_identity [OF this, of sha256 self "w rn i" code cid "- 1"]
  obtain r where r: "submit_single sha256 self (w rn i) h code cid (- 1) = Inr r" "complete_outcome r"
    "hotkey r = map_of h ''ss58_address''" "repeat_num r = None" by blast
  have step: "returned_outcomes sha256 self w code cid rn i (h # hs)
        = r # returned_outcomes sha256 self w code cid rn (Suc i) hs"
    using r(1) by (simp add: returned_outcomes_def List.map_filter_def)
  from Cons.IH [of "Suc i"] Cons.prems show ?case
    unfolding step using r by simp
qed

lemma returned_outcomes_append:
  "returned_outcomes sha256 self w code cid rn i (xs @ ys)
     = returned_outcomes sha256 self w code cid rn i xs
       @ returned_outcomes sha256 self w code cid rn (i + length xs) ys"
  by (simp add: returned_outcomes_def List.map_filter_def enumerate_append_eq)

lemma length_returned_outcomes:
  "\<forall>h\<in>set batch. is_identity h \<Longrightarrow>
   length (returned_outcomes sha256 self w code cid rn i batch) = length batch"
  using tasks_of_identities [of batch sha256 self w rn code cid i]
  by (metis length_map)


lemma returned_outcomes_Nil [simp]: "returned_outcomes sha256 self w code cid rn i [] = []"
  by (simp add: returned_outcomes_def List.map_filter_def)

lemma returned_outcomes_take_drop:
  "returned_outcomes sha256 self w code cid rn i (drop i hs)
     = returned_outcomes sha256 self w code cid rn i (take c (drop i hs))
       @ returned_outcomes sha256 self w code cid rn (i + c) (drop (i + c) hs)"
proof (cases "c \<le> length (drop i hs)")
  case True
  then have len: "length (take c (drop i hs)) = c" by simp
  have "drop i hs = take c (drop i hs) @ drop (i + c) hs"
    by (metis append_take_drop_id drop_drop add.commute)
  then have "returned_outcomes sha256 self w code cid rn i (drop i hs)
      = returned_outcomes sha256 self w code cid rn i (take c (drop i hs) @ drop (i + c) hs)"
    by simp
  also have "\<dots> = returned_outcomes sha256 self w code cid rn i (take c (drop i hs))
       @ returned_outcomes sha256 self w code cid rn (i + length (take c (drop i hs))) (drop (i + c) hs)"
    by (rule returned_outcomes_append)
  finally show ?thesis unfolding len .
next
  case False
  then have "take c (drop i hs) = drop i hs" "drop (i + c) hs = []" by simp_all
  then show ?thesis by simp
qed

lemma submit_batches_identities:
  assumes ids: "\<forall>h\<in>set hotkeys. is_identity h"
  shows "n = length hotkeys \<Longrightarrow> c = nat max_workers \<Longrightarrow> 0 < c \<Longrightarrow>
     submit_batches sha256 self w hotkeys code cid max_workers rn (range_from i n c) acc =
       \<lparr>launched = map (\<lambda>j. take c (drop j hotkeys)) (range_from i n c),
        returned = Inr (acc @ map (\<lambda>r. r\<lparr>repeat_num := Some rn\<rparr>)
                          (returned_outcomes sha256 self w code cid rn i (drop i hotkeys)))\<rparr>"
proof (induction i n c arbitrary: acc rule: range_from.induct)
  case (1 i n step)
  show ?case
  proof (cases "i < n")
    case True
    with "1.prems" have rf: "range_from i n step = i # range_from (i + step) n step"
      by (subst range_from.simps) simp
    let ?batch = "take step (drop i hotkeys)"
    have idb: "\<forall>h\<in>set ?batch. is_identity h"
      using ids by (meson in_set_takeD in_set_dropD)
    note t = tasks_of_identities [OF idb, of sha256 self w rn code cid i]
    have pr: "process_results rn ?batch 0 (run_group sha256 self w code cid rn i ?batch) acc
        = Inr (acc @ map (\<lambda>r. r\<lparr>repeat_num := Some rn\<rparr>)
                       (returned_outcomes sha256 self w code cid rn i ?batch))"
      unfolding run_group_positional using t by (simp add: process_results_complete)
    have ih: "submit_batches sha256 self w hotkeys code cid max_workers rn
                (range_from (i + step) n step) acc' =
       \<lparr>launched = map (\<lambda>j. take step (drop j hotkeys)) (range_from (i + step) n step),
        returned = Inr (acc' @ map (\<lambda>r. r\<lparr>repeat_num := Some rn\<rparr>)
                          (returned_outcomes sha256 self w code cid rn (i + step)
                             (drop (i + step) hotkeys)))\<rparr>" for acc'
      using "1.IH" [of acc'] True "1.prems" by simp
    have st: "nat max_workers = step" using "1.prems"(2) by simp
    show ?thesis
      unfolding rf
      using pr
      by (simp add: st Let_def ih
          returned_outcomes_take_drop [of sha256 self w code cid rn i hotkeys step])
  next
    case False
    with "1.prems" have "range_from i n step = []"
      by (subst range_from.simps) simp
    moreover from False "1.prems" have "drop i hotkeys = []" by simp
    ultimately show ?thesis by simp
  qed
qed

lemma submit_cycle_identities:
  assumes "\<forall>h\<in>set hotkeys. is_identity h" and "1 \<le> max_workers"
  shows "submit_cycle sha256 self w hotkeys code cid max_workers rn =
       \<lparr>launched = map (\<lambda>j. take (nat max_workers) (drop j hotkeys))
                     (range_from 0 (length hotkeys) (nat max_workers)),
        returned = Inr (map (\<lambda>r. r\<lparr>repeat_num := Some rn\<rparr>)
                          (returned_outcomes sha256 self w code cid rn 0 hotkeys))\<rparr>"
  using submit_batches_identities [OF assms(1), of "length hotkeys" "nat max_workers" max_workers
      sha256 self w code cid rn 0 "[]"] assms(2)
  by (simp add: submit_cycle_def py_range_def)

lemma submit_repeats_identities:
  assumes "\<forall>h\<in>set hotkeys. is_identity h" and "1 \<le> max_workers"
  shows "submit_repeats sha256 self w hotkeys code cid max_workers rns acc =
       \<lparr>launched = concat (map (\<lambda>rn. map (\<lambda>j. take (nat max_workers) (drop j hotkeys))
                     (range_from 0 (length hotkeys) (nat max_workers))) rns),
        returned = Inr (acc @ concat (map (\<lambda>rn. map (\<lambda>r. r\<lparr>repeat_num := Some rn\<rparr>)
                          (returned_outcomes sha256 self w code cid rn 0 hotkeys)) rns))\<rparr>"
  by (induction rns arbitrary: acc) (simp_all add: submit_cycle_identities [OF assms] Let_def)

lemma batch_submit_identities:
  assumes "\<forall>h\<in>set hotkeys. is_identity h" and "1 \<le> max_workers"
  shows "batch_submit sha256 self w hotkeys code cid max_workers repeat =
       \<lparr>launched = concat (map (\<lambda>rn. map (\<lambda>j. take (nat max_workers) (drop j hotkeys))
                     (range_from 0 (length hotkeys) (nat max_workers))) [1..repeat]),
        returned = Inr (concat (map (\<lambda>rn. map (\<lambda>r. r\<lparr>repeat_num := Some rn\<rparr>)
                          (returned_outcomes sha256 self w code cid rn 0 hotkeys)) [1..repeat]))\<rparr>"
  by (simp add: batch_submit_def submit_repeats_identities [OF assms])

lemma concat_groups:
  "0 < c \<Longrightarrow> n = length xs \<Longrightarrow>
   concat (map (\<lambda>j. take c (drop j xs)) (range_from i n c)) = drop i xs"
proof (induction i n c rule: range_from.induct)
  case (1 i n step)
  show ?case
  proof (cases "i < n")
    case True
    with "1.prems" have rf: "range_from i n step = i # range_from (i + step) n step"
      by (subst range_from.simps) simp
    have "take step (drop i xs) @ drop (i + step) xs = drop i xs"
      by (metis append_take_drop_id drop_drop add.commute)
    then show ?thesis unfolding rf using "1.IH" True "1.prems" by simp
  next
    case False
    with "1.prems" have "range_from i n step = []"
      by (subst range_from.simps) simp
    moreover from False "1.prems" have "drop i xs = []" by simp
    ultimately show ?thesis by simp
  qed
qed

lemma range_from_nth:
  "0 < c \<Longrightarrow> k < length (range_from i n c) \<Longrightarrow> range_from i n c ! k = i + k * c"
proof (induction i n c arbitrary: k rule: range_from.induct)
  case (1 i n step)
  show ?case
  proof (cases "i < n")
    case True
    with "1.prems" have rf: "range_from i n step = i # range_from (i + step) n step"
      by (subst range_from.simps) simp
    show ?thesis
    proof (cases k)
      case 0
      then show ?thesis unfolding rf by simp
    next
      case (Suc k')
      with "1.prems" have "k' < length (range_from (i + step) n step)" unfolding rf by simp
      from "1.IH" [OF _ "1.prems"(1) this] True "1.prems"(1)
      have "range_from (i + step) n step ! k' = i + step + k' * step" by simp
      then show ?thesis unfolding rf Suc by simp
    qed
  next
    case False
    with "1.prems" have "range_from i n step = []" by (subst range_from.simps) simp
    with "1.prems" show ?thesis by simp
  qed
qed

lemma range_from_bound:
  "0 < c \<Longrightarrow> j \<in> set (range_from i n c) \<Longrightarrow> j < n"
proof (induction i n c rule: range_from.induct)
  case (1 i n step)
  show ?case
  proof (cases "i < n")
    case True
    with "1.prems" have rf: "range_from i n step = i # range_from (i + step) n step"
      by (subst range_from.simps) simp
    with "1.prems" "1.IH" True show ?thesis by auto
  next
    case False
    with "1.prems" have "range_from i n step = []" by (subst range_from.simps) simp
    with "1.prems" show ?thesis by simp
  qed
qed

subsection \<open>Completion instants, identities and stamped outcomes\<close>

lemma is_identity_identity: "is_identity (identity a)"
  by (simp add: is_identity_def identity_def)

lemma submit_single_finished_at:
  "submit_single sha256 self (env\<lparr>finished_at := x\<rparr>) h code cid rnd
     = submit_single sha256 self env h code cid rnd"
proof -
  have s: "send_request sha256 self (env\<lparr>finished_at := x\<rparr>) path code cid rnd
             = send_request sha256 self env path code cid rnd" for path
  proof -
    have g: "generate_header sha256 self (env\<lparr>finished_at := x\<rparr>) kp body
               = generate_header sha256 self env kp body" for kp body
      by (simp add: generate_header_def Let_def cong: sum.case_cong)
    show ?thesis
      by (simp add: send_request_def g Let_def cong: sum.case_cong)
  qed
  have r: "record_response (env\<lparr>finished_at := x\<rparr>) res sent = record_response env res sent"
    for res sent
    by (simp add: record_response_def Let_def cong: sum.case_cong if_cong)
  show ?thesis
    by (simp add: submit_single_def s r cong: sum.case_cong)
qed

lemma run_group_reschedule:
  "run_group sha256 self (reschedule f w) code cid rn i batch
     = run_group sha256 self w code cid rn i batch"
  by (simp add: run_group_positional reschedule_def submit_single_finished_at)

lemma submit_batches_reschedule:
  "submit_batches sha256 self (reschedule f w) hotkeys code cid max_workers rn js acc
     = submit_batches sha256 self w hotkeys code cid max_workers rn js acc"
  by (induction js arbitrary: acc) (simp_all add: run_group_reschedule Let_def cong: sum.case_cong)

lemma submit_cycle_reschedule:
  "submit_cycle sha256 self (reschedule f w) hotkeys code cid max_workers rn
     = submit_cycle sha256 self w hotkeys code cid max_workers rn"
  by (simp add: submit_cycle_def submit_batches_reschedule cong: sum.case_cong)

lemma submit_repeats_reschedule:
  "submit_repeats sha256 self (reschedule f w) hotkeys code cid max_workers rns acc
     = submit_repeats sha256 self w hotkeys code cid max_workers rns acc"
  by (induction rns arbitrary: acc) (simp_all add: submit_cycle_reschedule Let_def cong: sum.case_cong)

lemma batch_submit_reschedule:
  "batch_submit sha256 self (reschedule f w) hotkeys code cid max_workers repeat
     = batch_submit sha256 self w hotkeys code cid max_workers repeat"
  by (simp add: batch_submit_def submit_repeats_reschedule)

lemma print_hotkeys_identities:
  "\<forall>h\<in>set hs. is_identity h \<Longrightarrow> print_hotkeys hs = Inr ()"
proof (induction hs)
  case Nil
  show ?case by simp
next
  case (Cons h hs)
  then have "is_identity h" by simp
  then obtain a b c d where
    "map_of h ''wallet_name'' = Some (PStr a)" "map_of h ''hotkey_name'' = Some (PStr b)"
    "map_of h ''hotkey_path'' = Some (PStr c)" "map_of h ''ss58_address'' = Some (PStr d)"
    unfolding is_identity_def by (blast dest: is_strE)
  with Cons show ?case by (simp add: getitem_def)
qed

lemma stamped_outcomes:
  assumes "\<forall>h\<in>set hotkeys. is_identity h"
  shows "length (returned_outcomes sha256 self w code cid rn 0 hotkeys) = length hotkeys"
    and "\<forall>r\<in>set (returned_outcomes sha256 self w code cid rn 0 hotkeys). complete_outcome r"
    and "map hotkey (returned_outcomes sha256 self w code cid rn 0 hotkeys)
           = map (\<lambda>h. map_of h ''ss58_address'') hotkeys"
  using tasks_of_identities [OF assms, of sha256 self w rn code cid 0]
    length_returned_outcomes [OF assms, of sha256 self w code cid rn 0]
  by simp_all

lemma filter_stamped:
  "distinct rns \<Longrightarrow>
   filter (\<lambda>x. repeat_num x = Some r)
     (concat (map (\<lambda>rn. map (\<lambda>x. x\<lparr>repeat_num := Some rn\<rparr>) (f rn)) rns))
   = (if r \<in> set rns then map (\<lambda>x. x\<lparr>repeat_num := Some r\<rparr>) (f r) else [])"
proof (induction rns)
  case Nil
  show ?case by simp
next
  case (Cons a rns)
  have one: "filter (\<lambda>x. repeat_num x = Some r) (map (\<lambda>x. x\<lparr>repeat_num := Some a\<rparr>) (f a))
      = (if a = r then map (\<lambda>x. x\<lparr>repeat_num := Some a\<rparr>) (f a) else [])"
    by (simp add: filter_map comp_def)
  from Cons show ?case by (auto simp: one)
qed

lemma length_concat_const:
  "(\<And>x. x \<in> set xs \<Longrightarrow> length (f x) = n) \<Longrightarrow> length (concat (map f xs)) = n * length xs"
  by (induction xs) simp_all

subsection \<open>Hexadecimal rendering and the envelope\<close>

lemma of_char_div_16: "(of_char c :: nat) div 16 < 16"
proof -
  have "(of_char c :: nat) mod 256 = of_char c" by (rule of_char_mod_256)
  moreover have "(of_char c :: nat) mod 256 < 256" by simp
  ultimately have "(of_char c :: nat) < 256" by simp
  then show ?thesis by presburger
qed

lemma digit_char_hex: "d < 16 \<Longrightarrow> digit_char d \<in> set ''0123456789abcdef''"
  unfolding digit_char_def by (rule nth_mem) simp

lemma hex_lowercase: "set (hex bs) \<subseteq> set ''0123456789abcdef''"
proof -
  define S where "S = set ''0123456789abcdef''"
  have d: "digit_char d \<in> S" if "d < 16" for d
    unfolding S_def using that by (rule digit_char_hex)
  have "set (hex_byte c) \<subseteq> S" for c
  proof -
    have "digit_char (of_char c div 16) \<in> S" by (rule d) (rule of_char_div_16)
    moreover have "digit_char (of_char c mod 16) \<in> S" by (rule d) simp
    ultimately show ?thesis unfolding hex_byte_def by simp
  qed
  then have "set (hex bs) \<subseteq> S" unfolding hex_def by auto
  then show ?thesis unfolding S_def .
qed

lemma generate_header_signed:
  assumes "generate_header sha256 self env kp body = Inr headers"
  shows "\<exists>signature.
           sign env kp (hex (sha256 body) @ ''.'' @ str_int (py_round (t_sign env * 1000)) @ ''.'')
             = Inr signature
           \<and> map_of headers ''Epistula-Request-Signature'' = Some (''0x'' @ hex signature)
           \<and> map_of headers ''Epistula-Timestamp'' = Some (str_int (py_round (t_sign env * 1000)))
           \<and> map_of headers ''X-Request-Id'' = Some (uuid4 env)"
  using assms
  by (auto simp: generate_header_def signed_message_def Let_def split: sum.splits)

subsection \<open>The outcome of one submission\<close>

lemma record_response_status:
  assumes "success res0 = Some False"
  shows "(success (record_response env res0 sent) = Some True
            \<longleftrightarrow> (\<exists>resp. sent = Inr resp \<and> status_code resp = 200))"
    and "sent = Inr resp \<Longrightarrow> status_code resp = 200 \<Longrightarrow> resp_json resp = Inr body \<Longrightarrow>
           response (record_response env res0 sent) = Some body"
    and "sent = Inr resp \<Longrightarrow> status_code resp \<noteq> 200 \<Longrightarrow>
           success (record_response env res0 sent) = Some False \<and>
           error (record_response env res0 sent)
             = Some (PStr (''HTTP '' @ str_int (status_code resp) @ '': '' @ resp_text resp))"
  using assms by (auto simp: record_response_def Let_def split: sum.splits)

lemma submit_single_Inr:
  assumes "submit_single sha256 self env hotkey_info code cid rnd = Inr res"
  shows "\<exists>path address wallet name short.
           map_of hotkey_info ''hotkey_path'' = Some path \<and>
           res = record_response env
                 \<lparr>success = Some False, hotkey = Some address, hotkey_short = Some short,
                  wallet_name = Some wallet, hotkey_name = Some name,
                  response = Some PNone, error = Some PNone, duration = Some 0,
                  repeat_num = None\<rparr>
                 (send_request sha256 self env path code cid rnd)"
proof -
  from assms obtain path address wallet name short where
    g: "getitem hotkey_info ''hotkey_path'' = Inr path"
    and r: "res = record_response env
                 \<lparr>success = Some False, hotkey = Some address, hotkey_short = Some short,
                  wallet_name = Some wallet, hotkey_name = Some name,
                  response = Some PNone, error = Some PNone, duration = Some 0,
                  repeat_num = None\<rparr>
                 (send_request sha256 self env path code cid rnd)"
    unfolding submit_single_def by (simp split: sum.splits) blast
  from g have "map_of hotkey_info ''hotkey_path'' = Some path"
    by (simp add: getitem_def split: option.splits)
  with r show ?thesis by blast
qed

subsection \<open>The summary\<close>

lemma count_success_eq:
  "count_success rs = Inr n \<Longrightarrow> n = length (filter (\<lambda>r. success r = Some True) rs)"
proof (induction rs arbitrary: n)
  case Nil
  then show ?case by simp
next
  case (Cons r rs)
  then show ?case
    by (auto simp: subscript_def split: option.splits sum.splits if_splits)
qed

lemma count_success_error: "count_success rs = Inl e \<Longrightarrow> e = KeyError ''success''"
  by (induction rs) (auto simp: subscript_def split: option.splits sum.splits)

lemma sum_durations_eq:
  "sum_durations rs = Inr t \<Longrightarrow>
     t = sum_list (List.map_filter duration (filter (\<lambda>r. success r = Some True) rs))
     \<and> length (List.map_filter duration (filter (\<lambda>r. success r = Some True) rs))
         = length (filter (\<lambda>r. success r = Some True) rs)"
proof (induction rs arbitrary: t)
  case Nil
  then show ?case by (simp add: List.map_filter_def)
next
  case (Cons r rs)
  then show ?case
    by (auto simp: subscript_def List.map_filter_def split: option.splits sum.splits if_splits)
qed

lemma sum_durations_error:
  "sum_durations rs = Inl e \<Longrightarrow> e = KeyError ''success'' \<or> e = KeyError ''duration''"
  by (induction rs) (auto simp: subscript_def split: option.splits sum.splits if_splits)

lemma repeat_lines_kind:
  "repeat_lines results ns = Inr ls \<Longrightarrow> AverageDuration a \<notin> set ls"
  by (induction ns arbitrary: ls) (auto simp: Let_def split: sum.splits)

lemma repeat_lines_error:
  "repeat_lines results ns = Inl e \<Longrightarrow> e = KeyError ''success''"
  by (induction ns) (auto simp: Let_def dest: count_success_error split: sum.splits)

lemma breakdown_lines_kind:
  "breakdown_lines results = Inr ls \<Longrightarrow> AverageDuration a \<notin> set ls"
  by (auto simp: breakdown_lines_def Let_def dest: repeat_lines_kind split: sum.splits if_splits)

lemma breakdown_lines_error:
  "breakdown_lines results = Inl e \<Longrightarrow> e = KeyError ''success''"
  by (auto simp: breakdown_lines_def Let_def dest: repeat_lines_error split: sum.splits if_splits)

lemma failed_lines_kind:
  "failed_lines rs = Inr ls \<Longrightarrow> AverageDuration a \<notin> set ls"
  by (induction rs arbitrary: ls) (auto simp: subscript_def split: sum.splits option.splits if_splits)

lemma failed_lines_error:
  "failed_lines rs = Inl e \<Longrightarrow> e = KeyError ''success''"
  by (induction rs) (auto simp: subscript_def split: sum.splits option.splits)

lemma average_lines_eq:
  assumes "average_lines results successful = Inr ls"
      and "successful = length (filter (\<lambda>r. success r = Some True) results)"
  shows "ls = (if successful = 0 then []
               else [AverageDuration
                       (sum_list (List.map_filter duration (filter (\<lambda>r. success r = Some True) results))
                        / real successful)])"
  using assms
  by (auto simp: average_lines_def truediv_def dest!: sum_durations_eq split: sum.splits if_splits)

lemma average_lines_error:
  "average_lines results successful = Inl e \<Longrightarrow> e = KeyError ''success'' \<or> e = KeyError ''duration''"
  by (auto simp: average_lines_def truediv_def dest: sum_durations_error split: sum.splits if_splits)

lemma all_success_eq:
  "\<forall>r\<in>set rs. success r \<noteq> None \<Longrightarrow> all_success rs = Inr (\<forall>r\<in>set rs. success r = Some True)"
  by (induction rs) (auto simp: subscript_def)

lemma count_success_complete:
  "\<forall>r\<in>set rs. success r \<noteq> None \<Longrightarrow> \<exists>n. count_success rs = Inr n"
  by (induction rs) (auto simp: subscript_def)

lemma sum_durations_complete:
  "\<forall>r\<in>set rs. success r \<noteq> None \<and> duration r \<noteq> None \<Longrightarrow> \<exists>t. sum_durations rs = Inr t"
  by (induction rs) (auto simp: subscript_def)

lemma failed_lines_complete:
  "\<forall>r\<in>set rs. success r \<noteq> None \<Longrightarrow> \<exists>ls. failed_lines rs = Inr ls"
  by (induction rs) (auto simp: subscript_def)

lemma repeat_lines_complete:
  "\<forall>r\<in>set rs. success r \<noteq> None \<Longrightarrow> \<exists>ls. repeat_lines rs ns = Inr ls"
proof (induction ns)
  case Nil
  show ?case by simp
next
  case (Cons n ns)
  have "\<forall>r\<in>set (filter (\<lambda>r. repeat_num r = Some n) rs). success r \<noteq> None"
    using Cons.prems by simp
  from count_success_complete [OF this] Cons.IH [OF Cons.prems]
  show ?case by (auto simp: Let_def)
qed

lemma print_summary_complete:
  assumes "\<forall>r\<in>set rs. success r \<noteq> None \<and> duration r \<noteq> None"
  shows "\<exists>ls. print_summary rs = Inr ls"
proof -
  from assms have s: "\<forall>r\<in>set rs. success r \<noteq> None" by simp
  from count_success_complete [OF s] obtain n where n: "count_success rs = Inr n" ..
  from repeat_lines_complete [OF s] have "\<exists>bs. breakdown_lines rs = Inr bs"
    unfolding breakdown_lines_def Let_def by (metis (no_types, lifting) sum.simps(6))
  then obtain bs where bs: "breakdown_lines rs = Inr bs" ..
  from sum_durations_complete [OF assms] obtain t where "sum_durations rs = Inr t" ..
  then have "\<exists>avs. average_lines rs n = Inr avs"
    by (simp add: average_lines_def truediv_def)
  then obtain avs where avs: "average_lines rs n = Inr avs" ..
  from failed_lines_complete [OF s] obtain fl where fl: "failed_lines rs = Inr fl" ..
  show ?thesis
    by (simp add: print_summary_def n bs avs fl)
qed

subsection \<open>The test doubles\<close>

lemma upto_1_2: "[1..2] = [1, 2 :: int]"
  by (simp add: upto_rec1)

lemma range_from_0_1_2: "range_from 0 (Suc 0) 2 = [0]"
  by (simp add: range_from.simps)

lemma range_from_0_2_2: "range_from 0 (Suc (Suc 0)) 2 = [0]"
  by (simp add: range_from.simps)

lemma str_int_500: "str_int 500 = ''500''"
  by (simp add: str_int_def str_nat.simps digit_char_def)

lemma str_int_1600: "str_int 1600 = ''1600''"
  by (simp add: str_int_def str_nat.simps digit_char_def)

lemma str_int_100000: "str_int 100000 = ''100000''"
  by (simp add: str_int_def str_nat.simps digit_char_def)

lemma str_int_ms: "str_int 1700000000123 = ''1700000000123''"
  by (simp add: str_int_def str_nat.simps digit_char_def)

lemma py_round_1600: "py_round 1600 = 1600"
  by (simp add: py_round_def)

lemma py_round_ms:
  "py_round (17000000001231 / 10) = 1700000000123"
  "py_round (17000000001233 / 10) = 1700000000123"
  by (simp_all add: py_round_def)

lemma hex_toy_digest: "hex (toy_sha256 ''{}'') = ''7b7d''"
  by (simp add: toy_sha256_def hex_def hex_byte_def digit_char_def)

lemma hex_toy_signature: "hex ''7b7'' = ''376237''"
  by (simp add: hex_def hex_byte_def digit_char_def)

lemma strip_code: "strip '' code '' = ''code''"
  by (simp add: strip_def isspace_def)

lemma toy_generate_header:
  "generate_header sha256 self (toy_env status clock uuid) kp body =
     Inr [(''Epistula-Timestamp'', str_int (py_round (clock * 1000))),
          (''Epistula-Signed-By'', ss58_address kp),
          (''Epistula-Request-Signature'',
             ''0x'' @ hex (take 3 (signed_message sha256 body (py_round (clock * 1000))))),
          (''X-Spec-Version'', str_int (spec_version self)),
          (''X-Request-Id'', uuid),
          (''Content-Type'', ''application/json'')]"
  by (simp add: generate_header_def toy_env_def Let_def)

lemma toy_send_request:
  "send_request sha256 self ((toy_env status clock uuid)\<lparr>finished_at := z\<rparr>) path code cid rnd
     = Inr \<lparr>status_code = status, resp_text = ''busy'',
            resp_json = Inr (PDict [(''ok'', PBool True)])\<rparr>"
  by (simp add: send_request_def generate_header_def toy_env_def Let_def)

lemma toy_submit_single:
  "submit_single sha256 self (toy_world rn j) (identity a) code cid rnd =
     Inr (if j = 1 then
            \<lparr>success = Some False, hotkey = Some (PStr a), hotkey_short = Some (PStr (take 8 a)),
             wallet_name = Some (PStr ''mama''), hotkey_name = Some (PStr a),
             response = Some PNone, error = Some (PStr ''HTTP 500: busy''), duration = Some 2,
             repeat_num = None\<rparr>
          else
            \<lparr>success = Some True, hotkey = Some (PStr a), hotkey_short = Some (PStr (take 8 a)),
             wallet_name = Some (PStr ''mama''), hotkey_name = Some (PStr a),
             response = Some (PDict [(''ok'', PBool True)]), error = Some PNone,
             duration = Some 2, repeat_num = None\<rparr>)"
  apply (simp add: submit_single_def getitem_def identity_def toy_world_def toy_send_request)
  apply (simp add: record_response_def toy_env_def str_int_500)
  done

lemma numbered_raises:
  "submit_single sha256 self env numbered code cid rnd = Inl (not_subscriptable ''int'')"
  by (simp add: submit_single_def getitem_def numbered_def)

lemma numbered_address: "getitem numbered ''ss58_address'' = Inr (PInt 12345)"
  by (simp add: getitem_def numbered_def)

lemma toy_successes:
  "\<forall>r\<in>set (returned_outcomes toy_sha256 (init None) toy_world ''code'' 1 rn 0
      [identity ''apex0'']). success r = Some True"
  "\<exists>r\<in>set (returned_outcomes toy_sha256 (init None) toy_world ''code'' 1 rn 0
      [identity ''apex0'', identity ''apex1'']). success r \<noteq> Some True"
  by (simp_all add: returned_outcomes_def List.map_filter_def toy_submit_single)

lemma complete_outcome_stamped [simp]:
  "complete_outcome (r\<lparr>repeat_num := x\<rparr>) = complete_outcome r"
  by (simp add: complete_outcome_def)

lemma stamped_success:
  "(\<forall>r\<in>set (concat (map (\<lambda>rn. map (\<lambda>x. x\<lparr>repeat_num := Some rn\<rparr>) (f rn)) rns)).
       success r = Some True)
     \<longleftrightarrow> (\<forall>rn\<in>set rns. \<forall>r\<in>set (f rn). success r = Some True)"
  "(\<exists>r\<in>set (concat (map (\<lambda>rn. map (\<lambda>x. x\<lparr>repeat_num := Some rn\<rparr>) (f rn)) rns)).
       success r \<noteq> Some True)
     \<longleftrightarrow> (\<exists>rn\<in>set rns. \<exists>r\<in>set (f rn). success r \<noteq> Some True)"
  by (induction rns) (simp_all add: ball_Un bex_Un)

lemma batch_submit_complete:
  assumes "\<forall>h\<in>set hotkeys. is_identity h" and "1 \<le> max_workers"
  shows "\<exists>results.
           returned (batch_submit sha256 self w hotkeys code cid max_workers repeat) = Inr results
         \<and> (\<forall>r\<in>set results. complete_outcome r)"
  using stamped_outcomes(2) [OF assms(1), of sha256 self w code cid]
  by (auto simp: batch_submit_identities [OF assms])

section \<open>The groups of a repeat cycle\<close>

text \<open>
  C1. For a list of identities and a concurrency of at least 1, one repeat cycle does
  this. The groups it launches concatenate to the list of identities, in the order
  given; their number is the ceiling of the number of identities divided by the
  concurrency; every group has at least one and at most as many identities as the
  concurrency allows; every group but the last is full; and the group of index \<open>k\<close> is
  the slice of the identities that starts at \<open>k\<close> times the concurrency. The cycle
  returns exactly one outcome per identity: the outcome at position \<open>j\<close> is what the
  submission of the identity at position \<open>j\<close> returned, stamped with the cycle number.
  The join of every launched group runs one submission for each member of the group, in
  the environment of the member's position.
\<close>

theorem submit_cycle_partition:
  assumes "1 \<le> max_workers" and "\<forall>h\<in>set hotkeys. is_identity h"
  shows "concat (launched (submit_cycle sha256 self w hotkeys code cid max_workers rn)) = hotkeys
       \<and> length (launched (submit_cycle sha256 self w hotkeys code cid max_workers rn))
           = nat \<lceil>real (length hotkeys) / real_of_int max_workers\<rceil>
       \<and> (\<forall>g\<in>set (launched (submit_cycle sha256 self w hotkeys code cid max_workers rn)).
             1 \<le> length g \<and> int (length g) \<le> max_workers)
       \<and> (\<forall>k. Suc k < length (launched (submit_cycle sha256 self w hotkeys code cid max_workers rn))
             \<longrightarrow> int (length (launched (submit_cycle sha256 self w hotkeys code cid max_workers rn) ! k))
                   = max_workers)
       \<and> (\<forall>k < length (launched (submit_cycle sha256 self w hotkeys code cid max_workers rn)).
             launched (submit_cycle sha256 self w hotkeys code cid max_workers rn) ! k
               = take (nat max_workers) (drop (k * nat max_workers) hotkeys))
       \<and> (\<exists>results.
             returned (submit_cycle sha256 self w hotkeys code cid max_workers rn) = Inr results
           \<and> length results = length hotkeys
           \<and> (\<forall>j < length hotkeys.
                 \<exists>r. submit_single sha256 self (w rn j) (hotkeys ! j) code cid (- 1) = Inr r
                    \<and> results ! j = r\<lparr>repeat_num := Some rn\<rparr>))
       \<and> (\<forall>k < length (launched (submit_cycle sha256 self w hotkeys code cid max_workers rn)).
             run_group sha256 self w code cid rn (k * nat max_workers)
                 (launched (submit_cycle sha256 self w hotkeys code cid max_workers rn) ! k)
               = map (\<lambda>(j, h). submit_single sha256 self (w rn j) h code cid (- 1))
                   (enumerate (k * nat max_workers)
                      (launched (submit_cycle sha256 self w hotkeys code cid max_workers rn) ! k)))"
proof -
  define c where "c = nat max_workers"
  define n where "n = length hotkeys"
  define gs where "gs = map (\<lambda>j. take c (drop j hotkeys)) (range_from 0 n c)"
  define ro where "ro = returned_outcomes sha256 self w code cid rn 0 hotkeys"
  have c: "0 < c" and mw: "max_workers = int c" using assms(1) by (simp_all add: c_def)
  have l: "launched (submit_cycle sha256 self w hotkeys code cid max_workers rn) = gs"
    unfolding gs_def c_def n_def by (simp add: submit_cycle_identities [OF assms(2,1)])
  have ret: "returned (submit_cycle sha256 self w hotkeys code cid max_workers rn)
               = Inr (map (\<lambda>r. r\<lparr>repeat_num := Some rn\<rparr>) ro)"
    unfolding ro_def by (simp add: submit_cycle_identities [OF assms(2,1)])
  have len: "length gs = (n + c - 1) div c"
    unfolding gs_def using length_range_from [OF c, of 0 n] by simp
  have nth: "gs ! k = take c (drop (k * c) hotkeys)" if "k < length gs" for k
    using that range_from_nth [OF c, of k 0 n] unfolding gs_def by simp
  have bound: "k * c < n" if "k < length gs" for k
  proof -
    from that have "range_from 0 n c ! k \<in> set (range_from 0 n c)"
      unfolding gs_def by simp
    then have "range_from 0 n c ! k < n" by (rule range_from_bound [OF c])
    with that range_from_nth [OF c, of k 0 n] show ?thesis unfolding gs_def by simp
  qed
  have 1: "concat gs = hotkeys"
    unfolding gs_def using concat_groups [OF c, of n hotkeys 0] by (simp add: n_def)
  have 2: "length gs = nat \<lceil>real n / real_of_int max_workers\<rceil>"
    unfolding len mw using ceil_div [OF c, of n] by simp
  have 3: "\<forall>g\<in>set gs. 1 \<le> length g \<and> int (length g) \<le> max_workers"
  proof
    fix g assume "g \<in> set gs"
    then obtain k where k: "k < length gs" "g = gs ! k" by (metis in_set_conv_nth)
    from bound [OF k(1)] have "1 \<le> length (take c (drop (k * c) hotkeys))"
      using c by (simp add: n_def)
    moreover have "length (take c (drop (k * c) hotkeys)) \<le> c" by simp
    ultimately show "1 \<le> length g \<and> int (length g) \<le> max_workers"
      unfolding k(2) nth [OF k(1)] mw by simp
  qed
  have 4: "\<forall>k. Suc k < length gs \<longrightarrow> int (length (gs ! k)) = max_workers"
  proof (intro allI impI)
    fix k assume k: "Suc k < length gs"
    from bound [OF k] have "k * c + c < n" by simp
    then have "length (take c (drop (k * c) hotkeys)) = c" by (simp add: n_def)
    moreover from k have "k < length gs" by simp
    ultimately show "int (length (gs ! k)) = max_workers" using nth mw by simp
  qed
  have 5: "\<forall>k < length gs. gs ! k = take (nat max_workers) (drop (k * nat max_workers) hotkeys)"
    using nth by (simp add: c_def)
  have lro: "length ro = n"
    unfolding ro_def n_def by (rule stamped_outcomes(1) [OF assms(2)])
  have tasks: "map (\<lambda>(j, h). submit_single sha256 self (w rn j) h code cid (- 1))
                 (enumerate 0 hotkeys) = map Inr ro"
    unfolding ro_def
    using tasks_of_identities [OF assms(2), of sha256 self w rn code cid 0]
    by (rule conjunct1)
  have task: "submit_single sha256 self (w rn j) (hotkeys ! j) code cid (- 1) = Inr (ro ! j)"
    if "j < n" for j
  proof -
    have "map (\<lambda>(j, h). submit_single sha256 self (w rn j) h code cid (- 1))
            (enumerate 0 hotkeys) ! j = map Inr ro ! j"
      by (simp only: tasks)
    then show ?thesis using that lro by (simp add: n_def nth_enumerate_eq)
  qed
  have 6: "\<exists>results.
             returned (submit_cycle sha256 self w hotkeys code cid max_workers rn) = Inr results
           \<and> length results = n
           \<and> (\<forall>j < n.
                 \<exists>r. submit_single sha256 self (w rn j) (hotkeys ! j) code cid (- 1) = Inr r
                    \<and> results ! j = r\<lparr>repeat_num := Some rn\<rparr>)"
    by (rule exI [of _ "map (\<lambda>r. r\<lparr>repeat_num := Some rn\<rparr>) ro"]) (simp add: ret lro task)
  have 7: "\<forall>k < length gs.
             run_group sha256 self w code cid rn (k * nat max_workers) (gs ! k)
               = map (\<lambda>(j, h). submit_single sha256 self (w rn j) h code cid (- 1))
                   (enumerate (k * nat max_workers) (gs ! k))"
    by (simp add: run_group_positional)
  from 1 2 3 4 5 6 7 show ?thesis unfolding l n_def by (intro conjI)
qed

text \<open>
  Three identities under a concurrency of 2: two groups, the second holding the third
  identity alone, and three outcomes, of which the second is the failure that the service
  answered to the second identity.
\<close>

theorem submit_cycle_partition_witness:
  "concat (launched (submit_cycle toy_sha256 (init None) toy_world
             [identity ''apex0'', identity ''apex1'', identity ''apex2''] ''code'' 1 2 1))
     = [identity ''apex0'', identity ''apex1'', identity ''apex2'']
   \<and> length (launched (submit_cycle toy_sha256 (init None) toy_world
             [identity ''apex0'', identity ''apex1'', identity ''apex2''] ''code'' 1 2 1)) = 2
   \<and> launched (submit_cycle toy_sha256 (init None) toy_world
             [identity ''apex0'', identity ''apex1'', identity ''apex2''] ''code'' 1 2 1) ! 1
     = [identity ''apex2'']
   \<and> (\<exists>results.
         returned (submit_cycle toy_sha256 (init None) toy_world
             [identity ''apex0'', identity ''apex1'', identity ''apex2''] ''code'' 1 2 1)
           = Inr results
       \<and> length results = 3
       \<and> success (results ! 1) = Some False
       \<and> hotkey (results ! 1) = Some (PStr ''apex1'')
       \<and> repeat_num (results ! 1) = Some 1)"
proof -
  let ?hs = "[identity ''apex0'', identity ''apex1'', identity ''apex2'']"
  let ?cyc = "submit_cycle toy_sha256 (init None) toy_world ?hs ''code'' 1 2 1"
  have mw: "(1::int) \<le> 2" by simp
  have ids: "\<forall>h\<in>set ?hs. is_identity h" by (simp add: is_identity_identity)
  note t = submit_cycle_partition [OF mw ids, of toy_sha256 "init None" toy_world "''code''" 1 1]
  from t have a: "concat (launched ?cyc) = ?hs" by (rule conjunct1)
  from t have "length (launched ?cyc) = nat \<lceil>real (length ?hs) / real_of_int 2\<rceil>"
    by (rule conjunct2 [THEN conjunct1])
  then have b: "length (launched ?cyc) = 2" by simp
  from t have "\<forall>k < length (launched ?cyc).
      launched ?cyc ! k = take (nat 2) (drop (k * nat 2) ?hs)"
    by (rule conjunct2 [THEN conjunct2, THEN conjunct2, THEN conjunct2, THEN conjunct1])
  then have "1 < length (launched ?cyc) \<longrightarrow>
      launched ?cyc ! 1 = take (nat 2) (drop (1 * nat 2) ?hs)" by (rule spec)
  with b have c: "launched ?cyc ! 1 = [identity ''apex2'']" by simp
  from t have "\<exists>results.
             returned ?cyc = Inr results
           \<and> length results = length ?hs
           \<and> (\<forall>j < length ?hs.
                 \<exists>r. submit_single toy_sha256 (init None) (toy_world 1 j) (?hs ! j) ''code'' 1 (- 1)
                        = Inr r
                    \<and> results ! j = r\<lparr>repeat_num := Some 1\<rparr>)"
    by (rule conjunct2 [THEN conjunct2, THEN conjunct2, THEN conjunct2, THEN conjunct2,
          THEN conjunct1])
  then obtain results where
    rs: "returned ?cyc = Inr results
           \<and> length results = length ?hs
           \<and> (\<forall>j < length ?hs.
                 \<exists>r. submit_single toy_sha256 (init None) (toy_world 1 j) (?hs ! j) ''code'' 1 (- 1)
                        = Inr r
                    \<and> results ! j = r\<lparr>repeat_num := Some 1\<rparr>)" ..
  from rs have r: "returned ?cyc = Inr results" by (rule conjunct1)
  from rs have "length results = length ?hs" by (rule conjunct2 [THEN conjunct1])
  then have len: "length results = 3" by simp
  from rs have "\<forall>j < length ?hs.
                 \<exists>r. submit_single toy_sha256 (init None) (toy_world 1 j) (?hs ! j) ''code'' 1 (- 1)
                        = Inr r
                    \<and> results ! j = r\<lparr>repeat_num := Some 1\<rparr>"
    by (rule conjunct2 [THEN conjunct2])
  then have "1 < length ?hs \<longrightarrow>
                 (\<exists>r. submit_single toy_sha256 (init None) (toy_world 1 1) (?hs ! 1) ''code'' 1 (- 1)
                        = Inr r
                    \<and> results ! 1 = r\<lparr>repeat_num := Some 1\<rparr>)"
    by (rule spec)
  then have "\<exists>r. submit_single toy_sha256 (init None) (toy_world 1 1) (identity ''apex1'')
                     ''code'' 1 (- 1) = Inr r
                    \<and> results ! 1 = r\<lparr>repeat_num := Some 1\<rparr>"
    by simp
  then obtain r1 where
    r1: "submit_single toy_sha256 (init None) (toy_world 1 1) (identity ''apex1'')
                     ''code'' 1 (- 1) = Inr r1
                    \<and> results ! 1 = r1\<lparr>repeat_num := Some 1\<rparr>" ..
  from r1 have v: "r1 = \<lparr>success = Some False, hotkey = Some (PStr ''apex1''),
             hotkey_short = Some (PStr (take 8 ''apex1'')),
             wallet_name = Some (PStr ''mama''), hotkey_name = Some (PStr ''apex1''),
             response = Some PNone, error = Some (PStr ''HTTP 500: busy''), duration = Some 2,
             repeat_num = None\<rparr>"
    by (simp add: toy_submit_single)
  from r1 have e: "results ! 1 = r1\<lparr>repeat_num := Some 1\<rparr>" by (rule conjunct2)
  have s: "success (results ! 1) = Some False" unfolding e v by simp
  have h: "hotkey (results ! 1) = Some (PStr ''apex1'')" unfolding e v by simp
  have n: "repeat_num (results ! 1) = Some 1" unfolding e by simp
  have "\<exists>results.
         returned ?cyc = Inr results
       \<and> length results = 3
       \<and> success (results ! 1) = Some False
       \<and> hotkey (results ! 1) = Some (PStr ''apex1'')
       \<and> repeat_num (results ! 1) = Some 1"
    by (rule exI [of _ results]) (intro conjI r len s h n)
  with a b c show ?thesis by (intro conjI)
qed

section \<open>The outcomes of a run\<close>

text \<open>
  C2. For a list of identities, a concurrency of at least 1 and any repeat count, the
  batch scheduler returns a list of outcomes whose length is the number of identities
  times the repeat count; for every cycle number from 1 to the repeat count exactly as
  many outcomes as there are identities carry that number; and every outcome carries one
  of these numbers.
\<close>

theorem batch_submit_outcome_count:
  assumes "1 \<le> max_workers" and "\<forall>h\<in>set hotkeys. is_identity h"
  shows "\<exists>results.
           returned (batch_submit sha256 self w hotkeys code cid max_workers repeat) = Inr results
         \<and> length results = length hotkeys * nat repeat
         \<and> (\<forall>r\<in>{1..repeat}. length (filter (\<lambda>x. repeat_num x = Some r) results) = length hotkeys)
         \<and> (\<forall>x\<in>set results. \<exists>r\<in>{1..repeat}. repeat_num x = Some r)"
proof -
  let ?f = "\<lambda>rn. returned_outcomes sha256 self w code cid rn 0 hotkeys"
  let ?results = "concat (map (\<lambda>rn. map (\<lambda>x. x\<lparr>repeat_num := Some rn\<rparr>) (?f rn)) [1..repeat])"
  have r: "returned (batch_submit sha256 self w hotkeys code cid max_workers repeat) = Inr ?results"
    by (simp add: batch_submit_identities [OF assms(2,1)])
  have lf: "length (?f rn) = length hotkeys" for rn
    by (rule stamped_outcomes(1) [OF assms(2)])
  have "length ?results = length hotkeys * length [1..repeat]"
    by (rule length_concat_const) (simp add: lf)
  then have a: "length ?results = length hotkeys * nat repeat" by simp
  have b: "\<forall>r\<in>{1..repeat}. length (filter (\<lambda>x. repeat_num x = Some r) ?results) = length hotkeys"
  proof
    fix r assume "r \<in> {1..repeat}"
    then have "r \<in> set [1..repeat]" by simp
    then show "length (filter (\<lambda>x. repeat_num x = Some r) ?results) = length hotkeys"
      by (simp add: filter_stamped [of "[1..repeat]" r ?f] lf)
  qed
  have c: "\<forall>x\<in>set ?results. \<exists>r\<in>{1..repeat}. repeat_num x = Some r"
    by auto
  from r a b c show ?thesis by blast
qed

text \<open>Three identities, a concurrency of 2 and two cycles: six outcomes, three of cycle 2.\<close>

theorem batch_submit_outcome_count_witness:
  "\<exists>results.
     returned (batch_submit toy_sha256 (init None) toy_world
                 [identity ''apex0'', identity ''apex1'', identity ''apex2''] ''code'' 1 2 2)
       = Inr results
     \<and> length results = 6
     \<and> length (filter (\<lambda>x. repeat_num x = Some 2) results) = 3"
proof -
  let ?hs = "[identity ''apex0'', identity ''apex1'', identity ''apex2'']"
  have mw: "(1::int) \<le> 2" by simp
  have ids: "\<forall>h\<in>set ?hs. is_identity h" by (simp add: is_identity_identity)
  from batch_submit_outcome_count [OF mw ids, of toy_sha256 "init None" toy_world "''code''" 1 2]
  obtain results where
    t: "returned (batch_submit toy_sha256 (init None) toy_world ?hs ''code'' 1 2 2) = Inr results
        \<and> length results = length ?hs * nat 2
        \<and> (\<forall>r\<in>{1..2::int}. length (filter (\<lambda>x. repeat_num x = Some r) results) = length ?hs)
        \<and> (\<forall>x\<in>set results. \<exists>r\<in>{1..2::int}. repeat_num x = Some r)" ..
  from t have r: "returned (batch_submit toy_sha256 (init None) toy_world ?hs ''code'' 1 2 2)
        = Inr results" by (rule conjunct1)
  from t have "length results = length ?hs * nat 2" by (rule conjunct2 [THEN conjunct1])
  then have l: "length results = 6" by simp
  from t have "\<forall>r\<in>{1..2::int}. length (filter (\<lambda>x. repeat_num x = Some r) results) = length ?hs"
    by (rule conjunct2 [THEN conjunct2, THEN conjunct1])
  then have "length (filter (\<lambda>x. repeat_num x = Some 2) results) = length ?hs"
    by (rule bspec) simp
  then have f: "length (filter (\<lambda>x. repeat_num x = Some 2) results) = 3" by simp
  show ?thesis
    by (rule exI [of _ results]) (intro conjI r l f)
qed

text \<open>
  C10. The run is the same whatever the completion instants of the tasks are: the join
  of a group returns the results at the positions of the tasks that were launched. For
  identities and a concurrency of at least 1, the addresses of the outcomes are those of
  the identities in their given order, once per repeat cycle, so the order of the outcome
  list is a function of the identity list and the repeat count alone.
\<close>

theorem batch_submit_positional_order:
  "batch_submit sha256 self (reschedule f w) hotkeys code cid max_workers repeat
     = batch_submit sha256 self w hotkeys code cid max_workers repeat
   \<and> (1 \<le> max_workers \<and> (\<forall>h\<in>set hotkeys. is_identity h) \<longrightarrow>
        (\<exists>results.
           returned (batch_submit sha256 self w hotkeys code cid max_workers repeat) = Inr results
         \<and> map hotkey results
             = concat (replicate (nat repeat) (map (\<lambda>h. map_of h ''ss58_address'') hotkeys))))"
proof (intro conjI impI)
  show "batch_submit sha256 self (reschedule f w) hotkeys code cid max_workers repeat
     = batch_submit sha256 self w hotkeys code cid max_workers repeat"
    by (rule batch_submit_reschedule)
next
  assume a: "1 \<le> max_workers \<and> (\<forall>h\<in>set hotkeys. is_identity h)"
  then have mw: "1 \<le> max_workers" and ids: "\<forall>h\<in>set hotkeys. is_identity h" by simp_all
  let ?f = "\<lambda>rn. returned_outcomes sha256 self w code cid rn 0 hotkeys"
  let ?results = "concat (map (\<lambda>rn. map (\<lambda>x. x\<lparr>repeat_num := Some rn\<rparr>) (?f rn)) [1..repeat])"
  have r: "returned (batch_submit sha256 self w hotkeys code cid max_workers repeat) = Inr ?results"
    by (simp add: batch_submit_identities [OF ids mw])
  have "map hotkey ?results
          = concat (map (\<lambda>rn. map (\<lambda>h. map_of h ''ss58_address'') hotkeys) [1..repeat])"
    by (simp add: map_concat comp_def stamped_outcomes(3) [OF ids])
  also have "\<dots> = concat (replicate (length [1..repeat]) (map (\<lambda>h. map_of h ''ss58_address'') hotkeys))"
    by (simp add: map_replicate_const)
  finally have "map hotkey ?results
          = concat (replicate (nat repeat) (map (\<lambda>h. map_of h ''ss58_address'') hotkeys))"
    by simp
  with r show "\<exists>results.
           returned (batch_submit sha256 self w hotkeys code cid max_workers repeat) = Inr results
         \<and> map hotkey results
             = concat (replicate (nat repeat) (map (\<lambda>h. map_of h ''ss58_address'') hotkeys))"
    by blast
qed

text \<open>
  In the concrete world the tasks of a group finish in reverse order; with the completion
  instants turned round the run is the same, and the addresses come in the order of the
  identities in both cycles.
\<close>

theorem batch_submit_positional_order_witness:
  "batch_submit toy_sha256 (init None) (reschedule (\<lambda>rn j. j) toy_world)
       [identity ''apex0'', identity ''apex1'', identity ''apex2''] ''code'' 1 2 2
     = batch_submit toy_sha256 (init None) toy_world
         [identity ''apex0'', identity ''apex1'', identity ''apex2''] ''code'' 1 2 2
   \<and> (\<exists>results.
         returned (batch_submit toy_sha256 (init None) toy_world
                     [identity ''apex0'', identity ''apex1'', identity ''apex2''] ''code'' 1 2 2)
           = Inr results
       \<and> map hotkey results
           = [Some (PStr ''apex0''), Some (PStr ''apex1''), Some (PStr ''apex2''),
              Some (PStr ''apex0''), Some (PStr ''apex1''), Some (PStr ''apex2'')])"
proof -
  let ?hs = "[identity ''apex0'', identity ''apex1'', identity ''apex2'']"
  have hyp: "(1::int) \<le> 2 \<and> (\<forall>h\<in>set ?hs. is_identity h)" by (simp add: is_identity_identity)
  note t = batch_submit_positional_order
             [of toy_sha256 "init None" "\<lambda>rn j. j" toy_world ?hs "''code''" 1 2 2]
  from t have a: "batch_submit toy_sha256 (init None) (reschedule (\<lambda>rn j. j) toy_world) ?hs ''code'' 1 2 2
     = batch_submit toy_sha256 (init None) toy_world ?hs ''code'' 1 2 2"
    by (rule conjunct1)
  from t [THEN conjunct2, THEN mp, OF hyp] obtain results where
    rm: "returned (batch_submit toy_sha256 (init None) toy_world ?hs ''code'' 1 2 2) = Inr results
       \<and> map hotkey results
              = concat (replicate (nat 2) (map (\<lambda>h. map_of h ''ss58_address'') ?hs))" ..
  from rm have r: "returned (batch_submit toy_sha256 (init None) toy_world ?hs ''code'' 1 2 2)
      = Inr results" by (rule conjunct1)
  from rm have "map hotkey results
              = concat (replicate (nat 2) (map (\<lambda>h. map_of h ''ss58_address'') ?hs))"
    by (rule conjunct2)
  then have m: "map hotkey results
           = [Some (PStr ''apex0''), Some (PStr ''apex1''), Some (PStr ''apex2''),
              Some (PStr ''apex0''), Some (PStr ''apex1''), Some (PStr ''apex2'')]"
    by (simp add: identity_def eval_nat_numeral)
  have "\<exists>results.
         returned (batch_submit toy_sha256 (init None) toy_world ?hs ''code'' 1 2 2) = Inr results
       \<and> map hotkey results
           = [Some (PStr ''apex0''), Some (PStr ''apex1''), Some (PStr ''apex2''),
              Some (PStr ''apex0''), Some (PStr ''apex1''), Some (PStr ''apex2'')]"
    by (rule exI [of _ results]) (intro conjI r m)
  with a show ?thesis by (rule conjI)
qed

section \<open>A task that raises\<close>

text \<open>
  C6 does not hold for the code. The identity built from a key file whose address is the
  number 12345 makes its task raise \<^verbatim>\<open>TypeError\<close> at line 185, before the \<^verbatim>\<open>try\<close>.
  The scheduler replaces the exception by a dictionary with the keys \<^verbatim>\<open>success\<close>,
  \<^verbatim>\<open>hotkey\<close> and \<^verbatim>\<open>error\<close> (lines 292-297) and then prints the keys
  \<^verbatim>\<open>hotkey_short\<close>, \<^verbatim>\<open>wallet_name\<close> and \<^verbatim>\<open>hotkey_name\<close> of it (lines 309-311):
  the batch ends with \<^verbatim>\<open>KeyError\<close> and returns no outcome, neither for that identity
  nor for the other identity of the group.
\<close>

theorem batch_submit_fault_raises:
  "submit_single toy_sha256 (init None) (toy_world 1 0) numbered ''code'' 1 (- 1)
     = Inl (not_subscriptable ''int'')
   \<and> batch_submit toy_sha256 (init None) toy_world [numbered, identity ''apex1''] ''code'' 1 2 1
     = \<lparr>launched = [[numbered, identity ''apex1'']], returned = Inl (KeyError ''hotkey_short'')\<rparr>"
  by (simp add: batch_submit_def submit_cycle_def py_range_def range_from_0_2_2
      run_group_positional numbered_raises toy_submit_single failure_outcome_def
      numbered_address print_result_def subscript_def Let_def)

section \<open>Success and the HTTP status\<close>

text \<open>
  C3. When a submission returns an outcome, \<^verbatim>\<open>success\<close> is true in it if and only if
  the request was sent and the transport observed the status 200. On status 200 the
  parsed JSON body of the response is stored in \<^verbatim>\<open>response\<close>; on any other status
  the outcome is a failure whose error message is \<^verbatim>\<open>HTTP\<close>, the status, a colon and
  the text of the response body.
\<close>

theorem submit_single_success_iff_200:
  assumes "submit_single sha256 self env hotkey_info code cid rnd = Inr res"
  shows "\<exists>path. map_of hotkey_info ''hotkey_path'' = Some path \<and>
           (success res = Some True \<longleftrightarrow>
              (\<exists>resp. send_request sha256 self env path code cid rnd = Inr resp
                     \<and> status_code resp = 200)) \<and>
           (\<forall>resp body. send_request sha256 self env path code cid rnd = Inr resp
                     \<and> status_code resp = 200 \<and> resp_json resp = Inr body
                \<longrightarrow> response res = Some body) \<and>
           (\<forall>resp. send_request sha256 self env path code cid rnd = Inr resp
                     \<and> status_code resp \<noteq> 200
                \<longrightarrow> success res = Some False \<and>
                    error res = Some (PStr (''HTTP '' @ str_int (status_code resp) @ '': ''
                                             @ resp_text resp)))"
proof -
  from submit_single_Inr [OF assms] obtain path address wallet name short where
    p: "map_of hotkey_info ''hotkey_path'' = Some path"
    and r: "res = record_response env
                 \<lparr>success = Some False, hotkey = Some address, hotkey_short = Some short,
                  wallet_name = Some wallet, hotkey_name = Some name,
                  response = Some PNone, error = Some PNone, duration = Some 0,
                  repeat_num = None\<rparr>
                 (send_request sha256 self env path code cid rnd)"
    by blast
  let ?res0 = "\<lparr>success = Some False, hotkey = Some address, hotkey_short = Some short,
                  wallet_name = Some wallet, hotkey_name = Some name,
                  response = Some PNone, error = Some PNone, duration = Some 0,
                  repeat_num = None\<rparr>"
  let ?sent = "send_request sha256 self env path code cid rnd"
  have s0: "success ?res0 = Some False" by simp
  have a: "success res = Some True \<longleftrightarrow> (\<exists>resp. ?sent = Inr resp \<and> status_code resp = 200)"
    unfolding r by (rule record_response_status(1) [OF s0])
  have b: "\<forall>resp body. ?sent = Inr resp \<and> status_code resp = 200 \<and> resp_json resp = Inr body
                \<longrightarrow> response res = Some body"
    unfolding r using record_response_status(2) [OF s0] by blast
  have c: "\<forall>resp. ?sent = Inr resp \<and> status_code resp \<noteq> 200
                \<longrightarrow> success res = Some False \<and>
                    error res = Some (PStr (''HTTP '' @ str_int (status_code resp) @ '': ''
                                             @ resp_text resp))"
    unfolding r using record_response_status(3) [OF s0] by blast
  from p a b c show ?thesis by blast
qed

text \<open>
  The service answers the second identity with status 500 and the body \<^verbatim>\<open>busy\<close>: the
  outcome is a failure with the error \<^verbatim>\<open>HTTP 500: busy\<close>.
\<close>

theorem submit_single_success_iff_200_witness:
  "(case submit_single toy_sha256 (init None) (toy_world 1 1) (identity ''apex1'') ''code'' 1 (- 1) of
      Inl e \<Rightarrow> False
    | Inr res \<Rightarrow> success res = Some False \<and> error res = Some (PStr ''HTTP 500: busy''))"
proof -
  define res where "res =
      \<lparr>success = Some False, hotkey = Some (PStr ''apex1''),
       hotkey_short = Some (PStr (take 8 ''apex1'')),
       wallet_name = Some (PStr ''mama''), hotkey_name = Some (PStr ''apex1''),
       response = Some PNone, error = Some (PStr ''HTTP 500: busy''), duration = Some 2,
       repeat_num = None\<rparr>"
  have e: "submit_single toy_sha256 (init None) (toy_world 1 1) (identity ''apex1'') ''code'' 1 (- 1)
             = Inr res"
    unfolding res_def by (simp add: toy_submit_single)
  from submit_single_success_iff_200 [OF e] obtain path where
    t: "map_of (identity ''apex1'') ''hotkey_path'' = Some path \<and>
        (success res = Some True \<longleftrightarrow>
           (\<exists>resp. send_request toy_sha256 (init None) (toy_world 1 1) path ''code'' 1 (- 1) = Inr resp
                  \<and> status_code resp = 200)) \<and>
        (\<forall>resp body. send_request toy_sha256 (init None) (toy_world 1 1) path ''code'' 1 (- 1) = Inr resp
                  \<and> status_code resp = 200 \<and> resp_json resp = Inr body
             \<longrightarrow> response res = Some body) \<and>
        (\<forall>resp. send_request toy_sha256 (init None) (toy_world 1 1) path ''code'' 1 (- 1) = Inr resp
                  \<and> status_code resp \<noteq> 200
             \<longrightarrow> success res = Some False \<and>
                 error res = Some (PStr (''HTTP '' @ str_int (status_code resp) @ '': ''
                                          @ resp_text resp)))" ..
  have sent: "send_request toy_sha256 (init None) (toy_world 1 1) path ''code'' 1 (- 1)
      = Inr \<lparr>status_code = 500, resp_text = ''busy'',
            resp_json = Inr (PDict [(''ok'', PBool True)])\<rparr>"
    by (simp add: toy_world_def toy_send_request)
  from t have "\<forall>resp. send_request toy_sha256 (init None) (toy_world 1 1) path ''code'' 1 (- 1) = Inr resp
                  \<and> status_code resp \<noteq> 200
             \<longrightarrow> success res = Some False \<and>
                 error res = Some (PStr (''HTTP '' @ str_int (status_code resp) @ '': ''
                                          @ resp_text resp))"
    by (rule conjunct2 [THEN conjunct2, THEN conjunct2])
  then have "send_request toy_sha256 (init None) (toy_world 1 1) path ''code'' 1 (- 1)
                 = Inr \<lparr>status_code = 500, resp_text = ''busy'',
                         resp_json = Inr (PDict [(''ok'', PBool True)])\<rparr>
               \<and> status_code \<lparr>status_code = 500, resp_text = ''busy'',
                         resp_json = Inr (PDict [(''ok'', PBool True)])\<rparr> \<noteq> 200
             \<longrightarrow> success res = Some False \<and>
                 error res = Some (PStr (''HTTP '' @ str_int (status_code \<lparr>status_code = 500,
                         resp_text = ''busy'', resp_json = Inr (PDict [(''ok'', PBool True)])\<rparr>)
                       @ '': '' @ resp_text \<lparr>status_code = 500, resp_text = ''busy'',
                         resp_json = Inr (PDict [(''ok'', PBool True)])\<rparr>))"
    by (rule spec)
  with sent have "success res = Some False \<and> error res = Some (PStr ''HTTP 500: busy'')"
    by (simp add: str_int_500)
  then show ?thesis unfolding e by simp
qed

section \<open>The envelope\<close>

text \<open>
  C4. When the signing returns an envelope, the message that was signed is the digest, a
  dot, the timestamp in milliseconds and a dot: three fields joined by dots, the third
  one empty. The digest is the hexadecimal rendering of the SHA-256 hash of the body, in
  the digits 0-9 and a-f, and the signature header is \<^verbatim>\<open>0x\<close> followed by the
  hexadecimal rendering of the signature.
\<close>

theorem generate_header_signed_message:
  assumes "generate_header sha256 self env kp body = Inr headers"
  shows "(\<exists>signature.
           sign env kp (hex (sha256 body) @ ''.'' @ str_int (py_round (t_sign env * 1000)) @ ''.'')
             = Inr signature
           \<and> map_of headers ''Epistula-Request-Signature'' = Some (''0x'' @ hex signature))
       \<and> hex (sha256 body) @ ''.'' @ str_int (py_round (t_sign env * 1000)) @ ''.''
           = join ''.'' [hex (sha256 body), str_int (py_round (t_sign env * 1000)), []]
       \<and> set (hex (sha256 body)) \<subseteq> set ''0123456789abcdef''"
proof (intro conjI)
  from generate_header_signed [OF assms]
  show "\<exists>signature.
           sign env kp (hex (sha256 body) @ ''.'' @ str_int (py_round (t_sign env * 1000)) @ ''.'')
             = Inr signature
           \<and> map_of headers ''Epistula-Request-Signature'' = Some (''0x'' @ hex signature)"
    by blast
  show "hex (sha256 body) @ ''.'' @ str_int (py_round (t_sign env * 1000)) @ ''.''
           = join ''.'' [hex (sha256 body), str_int (py_round (t_sign env * 1000)), []]"
    by simp
  show "set (hex (sha256 body)) \<subseteq> set ''0123456789abcdef''"
    by (rule hex_lowercase)
qed

text \<open>
  With the clock at 1.6 seconds and a digest of \<^verbatim>\<open>7b7d\<close> the signed message is
  \<^verbatim>\<open>7b7d.1600.\<close>, and the signature \<^verbatim>\<open>7b7\<close> gives the header \<^verbatim>\<open>0x376237\<close>.
\<close>

theorem generate_header_signed_message_witness:
  "sign (toy_env 200 (8 / 5) ''id-1'') toy_keypair ''7b7d.1600.'' = Inr ''7b7''
   \<and> header ''Epistula-Request-Signature''
       (generate_header toy_sha256 (init None) (toy_env 200 (8 / 5) ''id-1'') toy_keypair ''{}'')
     = Some ''0x376237''"
proof -
  define hs where "hs =
     [(''Epistula-Timestamp'', ''1600''), (''Epistula-Signed-By'', ''5Falice''),
      (''Epistula-Request-Signature'', ''0x376237''), (''X-Spec-Version'', ''100000''),
      (''X-Request-Id'', ''id-1''), (''Content-Type'', ''application/json'')]"
  have ts: "t_sign (toy_env 200 (8 / 5) ''id-1'') = 8 / 5" by (simp add: toy_env_def)
  have e: "generate_header toy_sha256 (init None) (toy_env 200 (8 / 5) ''id-1'') toy_keypair ''{}''
             = Inr hs"
    unfolding hs_def
    by (simp add: toy_generate_header signed_message_def py_round_1600 str_int_1600
        str_int_100000 hex_toy_digest hex_toy_signature init_def toy_keypair_def)
  from generate_header_signed_message [OF e] have
    "\<exists>signature.
       sign (toy_env 200 (8 / 5) ''id-1'') toy_keypair
         (hex (toy_sha256 ''{}'') @ ''.'' @
          str_int (py_round (t_sign (toy_env 200 (8 / 5) ''id-1'') * 1000)) @ ''.'')
         = Inr signature
       \<and> map_of hs ''Epistula-Request-Signature'' = Some (''0x'' @ hex signature)"
    by (rule conjunct1)
  then obtain signature where
    s: "sign (toy_env 200 (8 / 5) ''id-1'') toy_keypair
         (hex (toy_sha256 ''{}'') @ ''.'' @
          str_int (py_round (t_sign (toy_env 200 (8 / 5) ''id-1'') * 1000)) @ ''.'')
         = Inr signature
       \<and> map_of hs ''Epistula-Request-Signature'' = Some (''0x'' @ hex signature)" ..
  from s have "sign (toy_env 200 (8 / 5) ''id-1'') toy_keypair ''7b7d.1600.'' = Inr signature"
    by (simp add: ts py_round_1600 str_int_1600 hex_toy_digest)
  moreover have "sign (toy_env 200 (8 / 5) ''id-1'') toy_keypair ''7b7d.1600.'' = Inr ''7b7''"
    by (simp add: toy_env_def)
  ultimately have sig: "signature = ''7b7''" by simp
  from s have "map_of hs ''Epistula-Request-Signature'' = Some (''0x'' @ hex signature)"
    by (rule conjunct2)
  then have "header ''Epistula-Request-Signature''
       (generate_header toy_sha256 (init None) (toy_env 200 (8 / 5) ''id-1'') toy_keypair ''{}'')
     = Some ''0x376237''"
    unfolding e sig by (simp add: header_def hex_toy_signature)
  moreover have "sign (toy_env 200 (8 / 5) ''id-1'') toy_keypair ''7b7d.1600.'' = Inr ''7b7''"
    by (simp add: toy_env_def)
  ultimately show ?thesis by simp
qed

text \<open>
  C9, as the code has it. Two signing operations on the same body with the same identity
  sign the same digest. The timestamp header is the clock reading in seconds times 1000,
  rounded to an integer, and the request identifier is the UUID that was drawn: the two
  timestamps are equal exactly when the two clock readings round to the same millisecond,
  and the two request identifiers are equal exactly when the two UUIDs are.
\<close>

theorem generate_header_nonce:
  assumes "generate_header sha256 self env1 kp body = Inr h1"
      and "generate_header sha256 self env2 kp body = Inr h2"
  shows "(\<exists>s1 s2.
            sign env1 kp (hex (sha256 body) @ ''.'' @ str_int (py_round (t_sign env1 * 1000)) @ ''.'') = Inr s1 \<and>
            sign env2 kp (hex (sha256 body) @ ''.'' @ str_int (py_round (t_sign env2 * 1000)) @ ''.'') = Inr s2)
       \<and> (map_of h1 ''Epistula-Timestamp'' = map_of h2 ''Epistula-Timestamp''
             \<longleftrightarrow> py_round (t_sign env1 * 1000) = py_round (t_sign env2 * 1000))
       \<and> (map_of h1 ''X-Request-Id'' = map_of h2 ''X-Request-Id'' \<longleftrightarrow> uuid4 env1 = uuid4 env2)"
proof -
  from generate_header_signed [OF assms(1)] obtain s1 where
    s1: "sign env1 kp (hex (sha256 body) @ ''.'' @ str_int (py_round (t_sign env1 * 1000)) @ ''.'') = Inr s1"
    and t1: "map_of h1 ''Epistula-Timestamp'' = Some (str_int (py_round (t_sign env1 * 1000)))"
    and u1: "map_of h1 ''X-Request-Id'' = Some (uuid4 env1)" by blast
  from generate_header_signed [OF assms(2)] obtain s2 where
    s2: "sign env2 kp (hex (sha256 body) @ ''.'' @ str_int (py_round (t_sign env2 * 1000)) @ ''.'') = Inr s2"
    and t2: "map_of h2 ''Epistula-Timestamp'' = Some (str_int (py_round (t_sign env2 * 1000)))"
    and u2: "map_of h2 ''X-Request-Id'' = Some (uuid4 env2)" by blast
  have "str_int (py_round (t_sign env1 * 1000)) = str_int (py_round (t_sign env2 * 1000))
          \<longleftrightarrow> py_round (t_sign env1 * 1000) = py_round (t_sign env2 * 1000)"
  proof
    assume "str_int (py_round (t_sign env1 * 1000)) = str_int (py_round (t_sign env2 * 1000))"
    then show "py_round (t_sign env1 * 1000) = py_round (t_sign env2 * 1000)"
      by (rule str_int_inj)
  next
    assume "py_round (t_sign env1 * 1000) = py_round (t_sign env2 * 1000)"
    then show "str_int (py_round (t_sign env1 * 1000)) = str_int (py_round (t_sign env2 * 1000))"
      by simp
  qed
  then show ?thesis unfolding t1 t2 u1 u2 using s1 s2 by simp
qed

text \<open>
  Two signing operations 0.2 milliseconds apart, with two different UUIDs: the request
  identifiers differ and the timestamps are equal.
\<close>

theorem generate_header_nonce_witness:
  "header ''X-Request-Id''
       (generate_header toy_sha256 (init None) (toy_env 200 (17000000001231 / 10000) ''id-1'')
          toy_keypair ''{}'')
     \<noteq> header ''X-Request-Id''
       (generate_header toy_sha256 (init None) (toy_env 200 (17000000001233 / 10000) ''id-2'')
          toy_keypair ''{}'')
   \<and> header ''Epistula-Timestamp''
       (generate_header toy_sha256 (init None) (toy_env 200 (17000000001231 / 10000) ''id-1'')
          toy_keypair ''{}'')
     = header ''Epistula-Timestamp''
       (generate_header toy_sha256 (init None) (toy_env 200 (17000000001233 / 10000) ''id-2'')
          toy_keypair ''{}'')"
proof -
  let ?e1 = "toy_env 200 (17000000001231 / 10000) ''id-1''"
  let ?e2 = "toy_env 200 (17000000001233 / 10000) ''id-2''"
  obtain h1 where g1: "generate_header toy_sha256 (init None) ?e1 toy_keypair ''{}'' = Inr h1"
    by (simp add: toy_generate_header)
  obtain h2 where g2: "generate_header toy_sha256 (init None) ?e2 toy_keypair ''{}'' = Inr h2"
    by (simp add: toy_generate_header)
  note t = generate_header_nonce [OF g1 g2]
  have c: "t_sign ?e1 = 17000000001231 / 10000" "t_sign ?e2 = 17000000001233 / 10000"
    "uuid4 ?e1 = ''id-1''" "uuid4 ?e2 = ''id-2''"
    by (simp_all add: toy_env_def)
  from t have "map_of h1 ''Epistula-Timestamp'' = map_of h2 ''Epistula-Timestamp''
             \<longleftrightarrow> py_round (t_sign ?e1 * 1000) = py_round (t_sign ?e2 * 1000)"
    by (rule conjunct2 [THEN conjunct1])
  then have a: "map_of h1 ''Epistula-Timestamp'' = map_of h2 ''Epistula-Timestamp''"
    unfolding c by (simp add: py_round_ms)
  from t have "map_of h1 ''X-Request-Id'' = map_of h2 ''X-Request-Id'' \<longleftrightarrow> uuid4 ?e1 = uuid4 ?e2"
    by (rule conjunct2 [THEN conjunct2])
  then have b: "map_of h1 ''X-Request-Id'' \<noteq> map_of h2 ''X-Request-Id''"
    unfolding c by simp
  from a b show ?thesis unfolding g1 g2 by (simp add: header_def)
qed

text \<open>
  C9, as the specification words it, fails: the two signing operations above carry the
  same timestamp, 1700000000123.
\<close>

theorem generate_header_same_timestamp_counterexample:
  "header ''Epistula-Timestamp''
       (generate_header toy_sha256 (init None) (toy_env 200 (17000000001231 / 10000) ''id-1'')
          toy_keypair ''{}'')
     = Some ''1700000000123''
   \<and> header ''Epistula-Timestamp''
       (generate_header toy_sha256 (init None) (toy_env 200 (17000000001233 / 10000) ''id-2'')
          toy_keypair ''{}'')
     = Some ''1700000000123''"
  by (simp add: toy_generate_header header_def py_round_ms str_int_ms)

section \<open>The canonical body\<close>

text \<open>
  C5, as the code has it. The canonical body of a submission request lists the keys in
  lexicographic order (\<^verbatim>\<open>competition_id\<close>, \<^verbatim>\<open>raw_code\<close>, \<^verbatim>\<open>round_number\<close>) and
  renders the two integers as JSON numbers, in decimal digits without quotation marks;
  only the code is rendered as a JSON string.
\<close>

theorem create_message_body_canonical:
  "create_message_body (submit_request c r code) =
     ''{'' @ [CHR 0x22] @ ''competition_id'' @ [CHR 0x22] @ '': '' @ str_int c @ '', ''
       @ [CHR 0x22] @ ''raw_code'' @ [CHR 0x22] @ '': '' @ json_string code @ '', ''
       @ [CHR 0x22] @ ''round_number'' @ [CHR 0x22] @ '': '' @ str_int r @ ''}''
   \<and> CHR 0x22 \<notin> set (str_int c) \<and> CHR 0x22 \<notin> set (str_int r)"
  by (simp add: create_message_body_def submit_request_def json_dumps_def json_item_def
      json_string_def escape_char_def str_int_unquoted)

text \<open>
  C5, as the specification words it, fails: for competition 3, round -1 and the code
  \<^verbatim>\<open>x\<close> the integers are not rendered as strings.
\<close>

theorem create_message_body_numbers_counterexample:
  "create_message_body (submit_request 3 (- 1) ''x'') =
     ''{'' @ [CHR 0x22] @ ''competition_id'' @ [CHR 0x22] @ '': 3, ''
       @ [CHR 0x22] @ ''raw_code'' @ [CHR 0x22] @ '': '' @ [CHR 0x22] @ ''x'' @ [CHR 0x22] @ '', ''
       @ [CHR 0x22] @ ''round_number'' @ [CHR 0x22] @ '': -1}''
   \<and> create_message_body (submit_request 3 (- 1) ''x'')
       \<noteq> spec_canonical_body (submit_request 3 (- 1) ''x'')"
  by (simp add: create_message_body_def spec_canonical_body_def submit_request_def
      json_dumps_def json_item_def json_string_def escape_char_def str_int_def str_nat.simps
      digit_char_def)

section \<open>The average duration\<close>

text \<open>
  C8. The summary never raises a division by zero. When it is printed, it has a line for
  the average duration exactly when some outcome is successful, and the value on that
  line is the sum of the durations of the successful outcomes divided by their number;
  with no successful outcome there is no such line, so no average of zero is reported.
\<close>

theorem print_summary_average:
  "print_summary results \<noteq> Inl ZeroDivisionError \<and>
   (print_summary results = Inr ls \<longrightarrow>
      (\<forall>a. AverageDuration a \<in> set ls \<longleftrightarrow>
             filter (\<lambda>r. success r = Some True) results \<noteq> [] \<and>
             a = sum_list (List.map_filter duration (filter (\<lambda>r. success r = Some True) results))
                 / real (length (filter (\<lambda>r. success r = Some True) results))))"
proof (intro conjI impI allI)
  show "print_summary results \<noteq> Inl ZeroDivisionError"
    by (auto simp: print_summary_def
        dest: count_success_error breakdown_lines_error average_lines_error failed_lines_error
        split: sum.splits if_splits)
next
  fix a
  assume ok: "print_summary results = Inr ls"
  let ?S = "filter (\<lambda>r. success r = Some True) results"
  from ok obtain n bs avs fs where
    n: "count_success results = Inr n" and bs: "breakdown_lines results = Inr bs"
    and avs: "average_lines results n = Inr avs"
    and fs: "fs = [] \<or> (\<exists>fl. failed_lines results = Inr fl \<and> fs = FailedHeading # fl)"
    and ls: "ls = [Rule, Title, Rule, TotalSubmissions (length results), Successful n,
                Failed (length results - n)] @ bs @ avs @ [Rule] @ fs"
    by (auto simp: print_summary_def split: sum.splits if_splits)
  from count_success_eq [OF n] have nS: "n = length ?S" .
  from average_lines_eq [OF avs nS]
  have avs': "avs = (if n = 0 then [] else [AverageDuration (sum_list (List.map_filter duration ?S) / real n)])" .
  have "AverageDuration a \<notin> set bs" using bs by (rule breakdown_lines_kind)
  moreover have "AverageDuration a \<notin> set fs" using fs by (auto dest: failed_lines_kind)
  ultimately have "AverageDuration a \<in> set ls \<longleftrightarrow> AverageDuration a \<in> set avs"
    unfolding ls by simp
  then show "AverageDuration a \<in> set ls \<longleftrightarrow>
             ?S \<noteq> [] \<and> a = sum_list (List.map_filter duration ?S) / real (length ?S)"
    unfolding avs' nS by auto
qed

text \<open>
  Two successes of 2 and 4 seconds and a failure of 9 seconds give the average 3; a single
  failure gives a summary with no average line.
\<close>

theorem print_summary_average_witness:
  "print_summary [toy_outcome True 2, toy_outcome False 9, toy_outcome True 4]
     = Inr [Rule, Title, Rule, TotalSubmissions 3, Successful 2, Failed 1, AverageDuration 3,
            Rule, FailedHeading, FailedSubmission (PStr ''apex0'') (Some 1) PNone]
   \<and> print_summary [toy_outcome False 9]
     = Inr [Rule, Title, Rule, TotalSubmissions 1, Successful 0, Failed 1,
            Rule, FailedHeading, FailedSubmission (PStr ''apex0'') (Some 1) PNone]
   \<and> (\<forall>a. AverageDuration a
           \<in> set [Rule, Title, Rule, TotalSubmissions 3, Successful 2, Failed 1, AverageDuration 3,
                  Rule, FailedHeading, FailedSubmission (PStr ''apex0'') (Some 1) PNone]
         \<longleftrightarrow> a = 3)"
proof -
  let ?rs = "[toy_outcome True 2, toy_outcome False 9, toy_outcome True 4]"
  let ?ls = "[Rule, Title, Rule, TotalSubmissions 3, Successful 2, Failed 1, AverageDuration 3,
            Rule, FailedHeading, FailedSubmission (PStr ''apex0'') (Some 1) PNone]"
  have e: "print_summary ?rs = Inr ?ls"
    by (simp add: print_summary_def breakdown_lines_def average_lines_def truediv_def
        subscript_def toy_outcome_def List.map_filter_def)
  have e0: "print_summary [toy_outcome False 9]
     = Inr [Rule, Title, Rule, TotalSubmissions 1, Successful 0, Failed 1,
            Rule, FailedHeading, FailedSubmission (PStr ''apex0'') (Some 1) PNone]"
    by (simp add: print_summary_def breakdown_lines_def average_lines_def truediv_def
        subscript_def toy_outcome_def List.map_filter_def)
  from print_summary_average [of ?rs ?ls] have
    "print_summary ?rs = Inr ?ls \<longrightarrow>
      (\<forall>a. AverageDuration a \<in> set ?ls \<longleftrightarrow>
             filter (\<lambda>r. success r = Some True) ?rs \<noteq> [] \<and>
             a = sum_list (List.map_filter duration (filter (\<lambda>r. success r = Some True) ?rs))
                 / real (length (filter (\<lambda>r. success r = Some True) ?rs)))"
    by (rule conjunct2)
  from this e have "\<forall>a. AverageDuration a \<in> set ?ls \<longleftrightarrow>
             filter (\<lambda>r. success r = Some True) ?rs \<noteq> [] \<and>
             a = sum_list (List.map_filter duration (filter (\<lambda>r. success r = Some True) ?rs))
                 / real (length (filter (\<lambda>r. success r = Some True) ?rs))"
    by (rule mp)
  then have "\<forall>a. AverageDuration a \<in> set ?ls \<longleftrightarrow> a = 3"
    by (simp add: toy_outcome_def List.map_filter_def)
  with e e0 show ?thesis by simp
qed

section \<open>The exit code\<close>

text \<open>
  C7. When the solution file is missing or cannot be read, when its text is empty after
  stripping, or when no identity is found, \<^verbatim>\<open>main\<close> returns 1 and no submission has
  been launched. Otherwise, for identities: a dry run returns 0 and launches nothing;
  a run with a concurrency of at least 1 returns the outcomes of the batch and the exit
  code is 0 if and only if every outcome of every repeat cycle has \<^verbatim>\<open>success\<close> true,
  and 1 as soon as one outcome is a failure.
\<close>

theorem main_exit_code:
  "(\<not> solution_exists env \<or> (\<exists>e. solution_text env = Inl e)
      \<or> (\<exists>content. solution_text env = Inr content \<and> strip content = [])
      \<or> found_hotkeys env = []
      \<longrightarrow> main sha256 env a = \<lparr>launched = [], returned = Inr 1\<rparr>)
   \<and> (solution_exists env \<and> solution_text env = Inr content \<and> strip content \<noteq> []
        \<and> found_hotkeys env \<noteq> [] \<and> (\<forall>h\<in>set (found_hotkeys env). is_identity h)
      \<longrightarrow> (arg_dry_run a \<longrightarrow> main sha256 env a = \<lparr>launched = [], returned = Inr 0\<rparr>)
        \<and> (\<not> arg_dry_run a \<and> 1 \<le> arg_max_workers a \<longrightarrow>
             (\<exists>results.
                returned (batch_submit sha256 (init (arg_orchestrator_url a)) (submissions env)
                            (found_hotkeys env) (strip content) (arg_competition_id a)
                            (arg_max_workers a) (arg_repeat a)) = Inr results
              \<and> (exit_code (main sha256 env a) = 0 \<longleftrightarrow> (\<forall>r\<in>set results. success r = Some True))
              \<and> (exit_code (main sha256 env a) = 1 \<longleftrightarrow> (\<exists>r\<in>set results. success r \<noteq> Some True)))))"
proof (intro conjI impI)
  assume "\<not> solution_exists env \<or> (\<exists>e. solution_text env = Inl e)
      \<or> (\<exists>content. solution_text env = Inr content \<and> strip content = [])
      \<or> found_hotkeys env = []"
  then show "main sha256 env a = \<lparr>launched = [], returned = Inr 1\<rparr>"
    by (auto simp: main_def Let_def split: sum.splits)
next
  assume cfg: "solution_exists env \<and> solution_text env = Inr content \<and> strip content \<noteq> []
        \<and> found_hotkeys env \<noteq> [] \<and> (\<forall>h\<in>set (found_hotkeys env). is_identity h)"
  then have ph: "print_hotkeys (found_hotkeys env) = Inr ()"
    by (simp add: print_hotkeys_identities)
  assume "arg_dry_run a"
  with cfg ph show "main sha256 env a = \<lparr>launched = [], returned = Inr 0\<rparr>"
    by (simp add: main_def Let_def)
next
  assume cfg: "solution_exists env \<and> solution_text env = Inr content \<and> strip content \<noteq> []
        \<and> found_hotkeys env \<noteq> [] \<and> (\<forall>h\<in>set (found_hotkeys env). is_identity h)"
  then have ph: "print_hotkeys (found_hotkeys env) = Inr ()"
    and ids: "\<forall>h\<in>set (found_hotkeys env). is_identity h"
    by (simp_all add: print_hotkeys_identities)
  assume run: "\<not> arg_dry_run a \<and> 1 \<le> arg_max_workers a"
  then have mw: "1 \<le> arg_max_workers a" by simp
  let ?batch = "batch_submit sha256 (init (arg_orchestrator_url a)) (submissions env)
                  (found_hotkeys env) (strip content) (arg_competition_id a)
                  (arg_max_workers a) (arg_repeat a)"
  from batch_submit_complete [OF ids mw] obtain results where
    r: "returned ?batch = Inr results" and c: "\<forall>r\<in>set results. complete_outcome r"
    by blast
  from c have sd: "\<forall>r\<in>set results. success r \<noteq> None \<and> duration r \<noteq> None"
    by (simp add: complete_outcome_def)
  from print_summary_complete [OF sd] obtain ls where ps: "print_summary results = Inr ls" ..
  from sd have "\<forall>r\<in>set results. success r \<noteq> None" by simp
  then have al: "all_success results = Inr (\<forall>r\<in>set results. success r = Some True)"
    by (rule all_success_eq)
  have m: "returned (main sha256 env a)
             = Inr (if \<forall>r\<in>set results. success r = Some True then 0 else 1)"
    using cfg ph run r ps al by (simp add: main_def Let_def)
  have z: "exit_code (main sha256 env a) = 0 \<longleftrightarrow> (\<forall>r\<in>set results. success r = Some True)"
    unfolding exit_code_def m by simp
  have o: "exit_code (main sha256 env a) = 1 \<longleftrightarrow> (\<exists>r\<in>set results. success r \<noteq> Some True)"
    unfolding exit_code_def m by auto
  from r z o show "\<exists>results.
                returned ?batch = Inr results
              \<and> (exit_code (main sha256 env a) = 0 \<longleftrightarrow> (\<forall>r\<in>set results. success r = Some True))
              \<and> (exit_code (main sha256 env a) = 1 \<longleftrightarrow> (\<exists>r\<in>set results. success r \<noteq> Some True))"
    by blast
qed

text \<open>
  With no identity the exit code is 1 and nothing is launched; with one identity that the
  service accepts in both cycles the exit code is 0; with a second identity that the
  service rejects it is 1.
\<close>

theorem main_exit_code_witness:
  "main toy_sha256 (toy_main_env []) (toy_args False) = \<lparr>launched = [], returned = Inr 1\<rparr>
   \<and> exit_code (main toy_sha256 (toy_main_env [identity ''apex0'']) (toy_args False)) = 0
   \<and> exit_code (main toy_sha256 (toy_main_env [identity ''apex0'', identity ''apex1''])
                  (toy_args False)) = 1"
proof -
  have none: "found_hotkeys (toy_main_env []) = []" by (simp add: toy_main_env_def)
  from main_exit_code [of "toy_main_env []" toy_sha256 "toy_args False" "''code''"]
  have "\<not> solution_exists (toy_main_env []) \<or> (\<exists>e. solution_text (toy_main_env []) = Inl e)
      \<or> (\<exists>content. solution_text (toy_main_env []) = Inr content \<and> strip content = [])
      \<or> found_hotkeys (toy_main_env []) = []
      \<longrightarrow> main toy_sha256 (toy_main_env []) (toy_args False) = \<lparr>launched = [], returned = Inr 1\<rparr>"
    by (rule conjunct1)
  with none have a: "main toy_sha256 (toy_main_env []) (toy_args False)
      = \<lparr>launched = [], returned = Inr 1\<rparr>" by simp
  have b: "(exit_code (main toy_sha256 (toy_main_env hs) (toy_args False)) = 0
             \<longleftrightarrow> (\<forall>rn\<in>{1, 2}. \<forall>r\<in>set (returned_outcomes toy_sha256 (init None) toy_world
                                       ''code'' 1 rn 0 hs). success r = Some True))
         \<and> (exit_code (main toy_sha256 (toy_main_env hs) (toy_args False)) = 1
             \<longleftrightarrow> (\<exists>rn\<in>{1, 2}. \<exists>r\<in>set (returned_outcomes toy_sha256 (init None) toy_world
                                       ''code'' 1 rn 0 hs). success r \<noteq> Some True))"
    if hs: "hs \<noteq> []" "\<forall>h\<in>set hs. is_identity h" for hs
  proof -
    have cfg: "solution_exists (toy_main_env hs) \<and> solution_text (toy_main_env hs) = Inr '' code ''
        \<and> strip '' code '' \<noteq> [] \<and> found_hotkeys (toy_main_env hs) \<noteq> []
        \<and> (\<forall>h\<in>set (found_hotkeys (toy_main_env hs)). is_identity h)"
      using hs by (simp add: toy_main_env_def strip_code)
    have run: "\<not> arg_dry_run (toy_args False) \<and> 1 \<le> arg_max_workers (toy_args False)"
      by (simp add: toy_args_def)
    from main_exit_code [of "toy_main_env hs" toy_sha256 "toy_args False" "'' code ''",
        THEN conjunct2, THEN mp, OF cfg, THEN conjunct2, THEN mp, OF run]
    obtain results where
      t: "returned (batch_submit toy_sha256 (init (arg_orchestrator_url (toy_args False)))
                      (submissions (toy_main_env hs)) (found_hotkeys (toy_main_env hs))
                      (strip '' code '') (arg_competition_id (toy_args False))
                      (arg_max_workers (toy_args False)) (arg_repeat (toy_args False))) = Inr results
          \<and> (exit_code (main toy_sha256 (toy_main_env hs) (toy_args False)) = 0
               \<longleftrightarrow> (\<forall>r\<in>set results. success r = Some True))
          \<and> (exit_code (main toy_sha256 (toy_main_env hs) (toy_args False)) = 1
               \<longleftrightarrow> (\<exists>r\<in>set results. success r \<noteq> Some True))" ..
    have mw: "(1::int) \<le> 2" by simp
    from t have "returned (batch_submit toy_sha256 (init None) toy_world hs ''code'' 1 2 2)
         = Inr results"
      by (simp add: toy_args_def toy_main_env_def strip_code)
    then have res: "results = concat (map (\<lambda>rn. map (\<lambda>x. x\<lparr>repeat_num := Some rn\<rparr>)
                     (returned_outcomes toy_sha256 (init None) toy_world ''code'' 1 rn 0 hs)) [1, 2])"
      by (simp add: batch_submit_identities [OF hs(2) mw] upto_1_2)
    from t have z: "exit_code (main toy_sha256 (toy_main_env hs) (toy_args False)) = 0
               \<longleftrightarrow> (\<forall>r\<in>set results. success r = Some True)"
      by (rule conjunct2 [THEN conjunct1])
    from t have o: "exit_code (main toy_sha256 (toy_main_env hs) (toy_args False)) = 1
               \<longleftrightarrow> (\<exists>r\<in>set results. success r \<noteq> Some True)"
      by (rule conjunct2 [THEN conjunct2])
    show ?thesis unfolding z o res stamped_success by simp
  qed
  have c: "exit_code (main toy_sha256 (toy_main_env [identity ''apex0'']) (toy_args False)) = 0"
  proof -
    have "exit_code (main toy_sha256 (toy_main_env [identity ''apex0'']) (toy_args False)) = 0
             \<longleftrightarrow> (\<forall>rn\<in>{1, 2}. \<forall>r\<in>set (returned_outcomes toy_sha256 (init None) toy_world
                        ''code'' 1 rn 0 [identity ''apex0'']). success r = Some True)"
      by (rule b [THEN conjunct1]) (simp_all add: is_identity_identity)
    moreover have "\<forall>rn\<in>{1, 2}. \<forall>r\<in>set (returned_outcomes toy_sha256 (init None) toy_world
                        ''code'' 1 rn 0 [identity ''apex0'']). success r = Some True"
      by (simp add: toy_successes(1))
    ultimately show ?thesis by (rule iffD2)
  qed
  have d: "exit_code (main toy_sha256 (toy_main_env [identity ''apex0'', identity ''apex1''])
                  (toy_args False)) = 1"
  proof -
    have "exit_code (main toy_sha256 (toy_main_env [identity ''apex0'', identity ''apex1''])
                  (toy_args False)) = 1
             \<longleftrightarrow> (\<exists>rn\<in>{1, 2}. \<exists>r\<in>set (returned_outcomes toy_sha256 (init None) toy_world
                        ''code'' 1 rn 0 [identity ''apex0'', identity ''apex1'']).
                     success r \<noteq> Some True)"
      by (rule b [THEN conjunct2]) (simp_all add: is_identity_identity)
    moreover have "\<exists>rn\<in>{1, 2}. \<exists>r\<in>set (returned_outcomes toy_sha256 (init None) toy_world
                        ''code'' 1 rn 0 [identity ''apex0'', identity ''apex1'']).
                     success r \<noteq> Some True"
      by (rule bexI [of _ 1]) (rule toy_successes(2), simp)
    ultimately show ?thesis by (rule iffD2)
  qed
  from c d have "exit_code (main toy_sha256 (toy_main_env [identity ''apex0'']) (toy_args False)) = 0
   \<and> exit_code (main toy_sha256 (toy_main_env [identity ''apex0'', identity ''apex1''])
                  (toy_args False)) = 1" by (rule conjI)
  with a show ?thesis by (rule conjI)
qed

end
